theory Spec2Isabelle
  imports Main
begin

section \<open>JavaScript values used by server.js\<close>

text \<open>
  The repository holds two revisions of \<^verbatim>\<open>backend/server.js\<close>: the earlier one keeps the
  serial counter in \<^verbatim>\<open>serial_number.txt\<close> and queues local file paths for the faculty batch
  (suffix \<open>_v1\<close> below), the later one derives the serial from the registration store and
  queues links (suffix \<open>_v2\<close>). Functions that are the same text in both revisions are
  modelled once.

  Numbers are modelled as exact integers plus \<open>NaN\<close>. The code computes with doubles,
  which are these integers as long as every magnitude stays below \<open>2^53\<close>; from there on a
  double no longer moves under \<open>+ 1\<close>, is printed in exponent notation from \<open>10^21\<close>, and
  \<^verbatim>\<open>parseInt\<close> rounds. Strings are lists of bytes, and white space is the ASCII one, which
  is all of the code's white space on ASCII text. The results on the serial numbers of a
  whole run are therefore stated for ASCII text and for numbers that stay below \<open>2^53\<close>
  (\<open>ascii\<close>, \<open>in_range\<close> below). The upper-casing of a string is not modelled at all: it is
  taken from the outside world.
\<close>

datatype jsnum = NaN | Num int

datatype jsval =
    Undefined
  | Null
  | Bool bool
  | Number int
  | Str string
  | Arr "jsval list"
  | Obj "(string \<times> jsval) list"

text \<open>A parsed JSON object: a field that is absent reads as \<open>Undefined\<close>.\<close>

type_synonym jsobject = "string \<Rightarrow> jsval"

datatype error = TypeError | ENOENT | RenderError | UploadError | DbError | DuplicateKey | MailError

definition is_digit :: "char \<Rightarrow> bool" where
  "is_digit c = (48 \<le> (of_char c :: nat) \<and> (of_char c :: nat) \<le> 57)"

definition digit_val :: "char \<Rightarrow> nat" where
  "digit_val c = of_char c - 48"

definition digit_char :: "nat \<Rightarrow> char" where
  "digit_char d =
     (if d = 0 then CHR ''0'' else if d = 1 then CHR ''1'' else if d = 2 then CHR ''2''
      else if d = 3 then CHR ''3'' else if d = 4 then CHR ''4'' else if d = 5 then CHR ''5''
      else if d = 6 then CHR ''6'' else if d = 7 then CHR ''7'' else if d = 8 then CHR ''8''
      else CHR ''9'')"

text \<open>White space as \<^verbatim>\<open>parseInt\<close> and the regular expression \<^verbatim>\<open>\s\<close> see it (ASCII part):
  space, tab, line feed, vertical tab, form feed, carriage return.\<close>

definition is_space :: "char \<Rightarrow> bool" where
  "is_space c = ((of_char c :: nat) = 32 \<or> (9 \<le> (of_char c :: nat) \<and> (of_char c :: nat) \<le> 13))"

text \<open>\<^verbatim>\<open>Number.prototype.toString()\<close> on a non-negative integer below \<open>10^21\<close>, where the
  code prints every digit.\<close>

fun digits :: "nat \<Rightarrow> string" where
  "digits n = (if n < 10 then [digit_char n] else digits (n div 10) @ [digit_char (n mod 10)])"

declare digits.simps [simp del]

definition toString :: "jsnum \<Rightarrow> string" where
  "toString x =
     (case x of
        NaN \<Rightarrow> ''NaN''
      | Num n \<Rightarrow> if n < 0 then CHR ''-'' # digits (nat (- n)) else digits (nat n))"

text \<open>\<^verbatim>\<open>s.padStart(k, c)\<close> with a one-character filler.\<close>

definition padStart :: "nat \<Rightarrow> char \<Rightarrow> string \<Rightarrow> string" where
  "padStart k c s = replicate (k - length s) c @ s"

definition digits_value :: "string \<Rightarrow> nat" where
  "digits_value ds = foldl (\<lambda>a c. 10 * a + digit_val c) 0 ds"

text \<open>\<^verbatim>\<open>parseInt(s, 10)\<close>: leading white space is skipped, one sign is read, then the longest
  run of decimal digits; no digit at all gives \<open>NaN\<close>. Nothing is raised. This is the code's
  result on ASCII text whose digits make a number below \<open>2^53\<close>.\<close>

definition parseInt10 :: "string \<Rightarrow> jsnum" where
  "parseInt10 s =
     (let t = dropWhile is_space s;
          neg = (case t of [] \<Rightarrow> False | c # r \<Rightarrow> c = CHR ''-'');
          u = (case t of [] \<Rightarrow> [] | c # r \<Rightarrow> if c = CHR ''-'' \<or> c = CHR ''+'' then r else t);
          ds = takeWhile is_digit u
      in if ds = [] then NaN
         else if neg then Num (- int (digits_value ds)) else Num (int (digits_value ds)))"

text \<open>\<^verbatim>\<open>x + 1\<close> on a number: \<open>NaN + 1\<close> is \<open>NaN\<close>. The sum is the code's as long as it stays
  below \<open>2^53\<close> in magnitude.\<close>

definition js_add1 :: "jsnum \<Rightarrow> jsnum" where
  "js_add1 x = (case x of NaN \<Rightarrow> NaN | Num n \<Rightarrow> Num (n + 1))"

text \<open>\<^verbatim>\<open>a < b\<close> on numbers: every comparison with \<open>NaN\<close> is false.\<close>

definition num_less :: "jsnum \<Rightarrow> jsnum \<Rightarrow> bool" where
  "num_less a b = (case (a, b) of (Num x, Num y) \<Rightarrow> x < y | _ \<Rightarrow> False)"

definition truthy :: "jsval \<Rightarrow> bool" where
  "truthy v =
     (case v of
        Undefined \<Rightarrow> False
      | Null \<Rightarrow> False
      | Bool b \<Rightarrow> b
      | Number n \<Rightarrow> n \<noteq> 0
      | Str s \<Rightarrow> s \<noteq> []
      | Arr xs \<Rightarrow> True
      | Obj kvs \<Rightarrow> True)"

text \<open>\<^verbatim>\<open>v || ''\<close>\<close>

definition or_empty :: "jsval \<Rightarrow> jsval" where
  "or_empty v = (if truthy v then v else Str [])"

text \<open>\<^verbatim>\<open>v.toUpperCase()\<close>: only a string has the method; on \<^verbatim>\<open>undefined\<close>, \<^verbatim>\<open>null\<close> and every
  other value the call raises a TypeError. What the method makes of a string is the
  parameter \<open>upper\<close>.\<close>

definition toUpperCase :: "(string \<Rightarrow> string) \<Rightarrow> jsval \<Rightarrow> error + string" where
  "toUpperCase upper v = (case v of Str s \<Rightarrow> Inr (upper s) | _ \<Rightarrow> Inl TypeError)"

text \<open>\<^verbatim>\<open>s.replace(/\s+/g, '_')\<close> on a string: each maximal run of white space becomes one
  underscore.\<close>

function replace_ws :: "string \<Rightarrow> string" where
  "replace_ws [] = []"
| "replace_ws (c # cs) =
     (if is_space c then CHR ''_'' # replace_ws (dropWhile is_space cs) else c # replace_ws cs)"
  by pat_completeness auto
termination
  by (relation "measure length") (auto simp: le_imp_less_Suc length_dropWhile_le)

text \<open>\<^verbatim>\<open>v.replace(/\s+/g, '_')\<close> on any value: a TypeError unless \<open>v\<close> is a string.\<close>

definition replace_spaces :: "jsval \<Rightarrow> error + string" where
  "replace_spaces v = (case v of Str s \<Rightarrow> Inr (replace_ws s) | _ \<Rightarrow> Inl TypeError)"

text \<open>\<^verbatim>\<open>s.split(d)\<close> with a one-character separator; the empty string splits into one empty
  part.\<close>

fun split_on :: "char \<Rightarrow> string \<Rightarrow> string list" where
  "split_on d [] = [[]]"
| "split_on d (c # cs) =
     (if c = d then [] # split_on d cs
      else (case split_on d cs of [] \<Rightarrow> [[c]] | p # ps \<Rightarrow> (c # p) # ps))"

section \<open>The certificate and the application form (page.evaluate)\<close>

text \<open>\<^verbatim>\<open>formatDate\<close>, local to \<^verbatim>\<open>generateCertificate\<close>.\<close>

definition formatDate :: "jsval \<Rightarrow> string" where
  "formatDate dateString =
     (case dateString of
        Str s \<Rightarrow>
          if s = [] then []
          else (case split_on CHR ''-'' s of
                  [year, month, day] \<Rightarrow> day @ ''-'' @ month @ ''-'' @ year
                | _ \<Rightarrow> s)
      | _ \<Rightarrow> [])"

text \<open>The three branches that build \<^verbatim>\<open>mainText\<close>. In the first two the interpolated
  \<^verbatim>\<open>data.gender\<close> is the string the branch has just compared it with.\<close>

definition mainText :: "(string \<Rightarrow> string) \<Rightarrow> jsobject \<Rightarrow> error + string" where
  "mainText upper data =
     (if data ''gender'' = Str ''Mr.'' then
        (case toUpperCase upper (data ''applicantName'') of
           Inl e \<Rightarrow> Inl e
         | Inr n \<Rightarrow>
             (case toUpperCase upper (data ''fatherName'') of
                Inl e \<Rightarrow> Inl e
              | Inr f \<Rightarrow>
                  Inr (''This is to certify that <strong>'' @ ''Mr.'' @ '' '' @ n @ ''</strong> S/o <strong>''
                       @ f @ ''</strong> is awarded this certificate in recognition'')))
      else if data ''gender'' = Str ''Ms.'' then
        (case toUpperCase upper (data ''applicantName'') of
           Inl e \<Rightarrow> Inl e
         | Inr n \<Rightarrow>
             (case toUpperCase upper (data ''fatherName'') of
                Inl e \<Rightarrow> Inl e
              | Inr f \<Rightarrow>
                  Inr (''This is to certify that <strong>'' @ ''Ms.'' @ '' '' @ n @ ''</strong> D/o <strong>''
                       @ f @ ''</strong> is awarded this certificate in recognition'')))
      else
        (case toUpperCase upper (data ''applicantName'') of
           Inl e \<Rightarrow> Inl e
         | Inr n \<Rightarrow>
             (case toUpperCase upper (data ''fatherName'') of
                Inl e \<Rightarrow> Inl e
              | Inr f \<Rightarrow>
                  Inr (''This is to certify that <strong>'' @ n @ ''</strong> S/o / D/o <strong>''
                       @ f @ ''</strong> is awarded this certificate in recognition''))))"

text \<open>What the certificate's \<^verbatim>\<open>page.evaluate\<close> writes into the template, element by element.
  The template is taken to hold every element the code looks up.\<close>

record cert_fields =
  cert_main_text :: string
  cert_serial :: jsval
  cert_course :: string
  cert_start :: string
  cert_end :: string
  cert_issue_date :: string
  cert_photo :: "jsval option"

definition fill_certificate :: "(string \<Rightarrow> string) \<Rightarrow> jsobject \<Rightarrow> error + cert_fields" where
  "fill_certificate upper data =
     (case mainText upper data of
        Inl e \<Rightarrow> Inl e
      | Inr txt \<Rightarrow>
          (case toUpperCase upper (data ''courseName'') of
             Inl e \<Rightarrow> Inl e
           | Inr course \<Rightarrow>
               Inr \<lparr> cert_main_text = txt,
                     cert_serial = data ''serialNumber'',
                     cert_course = ''INTERNSHIP PROGRAMME ON '' @ course,
                     cert_start = formatDate (data ''fromDate''),
                     cert_end = formatDate (data ''toDate''),
                     cert_issue_date = formatDate (data ''toDate''),
                     cert_photo = (if truthy (data ''photo'') then Some (data ''photo'') else None) \<rparr>))"

text \<open>Property reads on nested values: \<^verbatim>\<open>v.length > 0\<close>, \<^verbatim>\<open>v[0]\<close> and \<^verbatim>\<open>v.k\<close>. Reading a
  property of \<^verbatim>\<open>undefined\<close> or \<^verbatim>\<open>null\<close> raises a TypeError. An object's own \<^verbatim>\<open>length\<close> counts
  when it is a number; a \<^verbatim>\<open>length\<close> of another type is taken as not positive.\<close>

definition js_length :: "jsval \<Rightarrow> nat option" where
  "js_length v =
     (case v of
        Arr xs \<Rightarrow> Some (length xs)
      | Str s \<Rightarrow> Some (length s)
      | Obj kvs \<Rightarrow> (case map_of kvs ''length'' of Some (Number n) \<Rightarrow> Some (nat n) | _ \<Rightarrow> None)
      | _ \<Rightarrow> None)"

definition js_first :: "jsval \<Rightarrow> jsval" where
  "js_first v =
     (case v of
        Arr xs \<Rightarrow> (case xs of [] \<Rightarrow> Undefined | x # _ \<Rightarrow> x)
      | Str s \<Rightarrow> (case s of [] \<Rightarrow> Undefined | c # _ \<Rightarrow> Str [c])
      | Obj kvs \<Rightarrow> (case map_of kvs ''0'' of None \<Rightarrow> Undefined | Some x \<Rightarrow> x)
      | _ \<Rightarrow> Undefined)"

definition js_prop :: "jsval \<Rightarrow> string \<Rightarrow> error + jsval" where
  "js_prop v k =
     (case v of
        Undefined \<Rightarrow> Inl TypeError
      | Null \<Rightarrow> Inl TypeError
      | Obj kvs \<Rightarrow> (case map_of kvs k of None \<Rightarrow> Inr Undefined | Some x \<Rightarrow> Inr x)
      | _ \<Rightarrow> Inr Undefined)"

text \<open>The application form's inputs, as (element id, record field) in the order of the
  source.\<close>

definition app_bindings :: "(string \<times> string) list" where
  "app_bindings =
     [(''course-name'', ''courseName''), (''department'', ''department''),
      (''duration'', ''duration''), (''from-date'', ''fromDate''), (''to-date'', ''toDate''),
      (''applicant-name'', ''applicantName''), (''dob'', ''dob''),
      (''father-name'', ''fatherName''), (''mother-name'', ''motherName''),
      (''address'', ''address''), (''mobile'', ''mobile''), (''email'', ''email''),
      (''aadhar'', ''aadhar''), (''course_fees'', ''course_fees'')]"

definition edu_bindings :: "(string \<times> string) list" where
  "edu_bindings =
     [(''edu_course'', ''course''), (''edu_school'', ''school''), (''edu_spec'', ''spec''),
      (''edu_year'', ''year''), (''edu_perc'', ''perc'')]"

fun fill_education :: "jsval \<Rightarrow> (string \<times> string) list \<Rightarrow> error + (string \<times> jsval) list" where
  "fill_education entry [] = Inr []"
| "fill_education entry ((el, k) # bs) =
     (case js_prop entry k of
        Inl e \<Rightarrow> Inl e
      | Inr v \<Rightarrow>
          (case fill_education entry bs of
             Inl e \<Rightarrow> Inl e
           | Inr rest \<Rightarrow> Inr ((el, or_empty v) # rest)))"

record app_fields =
  app_inputs :: "(string \<times> jsval) list"
  app_caste :: "jsval option"
  app_education :: "(string \<times> jsval) list"
  app_gender_male :: bool
  app_gender_female :: bool
  app_photo :: "jsval option"

definition fill_application :: "jsobject \<Rightarrow> error + app_fields" where
  "fill_application data =
     (case (if truthy (data ''education'')
               \<and> (case js_length (data ''education'') of None \<Rightarrow> False | Some n \<Rightarrow> 0 < n)
            then fill_education (js_first (data ''education'')) edu_bindings
            else Inr []) of
        Inl e \<Rightarrow> Inl e
      | Inr edu \<Rightarrow>
          Inr \<lparr> app_inputs = map (\<lambda>(el, k). (el, or_empty (data k))) app_bindings,
                app_caste = (if truthy (data ''casteCategory'') then Some (data ''casteCategory'') else None),
                app_education = edu,
                app_gender_male = (data ''gender'' = Str ''Mr.''),
                app_gender_female = (data ''gender'' \<noteq> Str ''Mr.'' \<and> data ''gender'' = Str ''Ms.''),
                app_photo = (if truthy (data ''photo'') then Some (data ''photo'') else None) \<rparr>)"

section \<open>Server state and the outside world\<close>

text \<open>
  The state a request or a scheduled flush can change: the counter file
  \<^verbatim>\<open>serial_number.txt\<close> (\<open>None\<close> when the file does not exist), the files of the output
  directory, the registrations collection, the in-memory \<^verbatim>\<open>fileQueue\<close>, and the mail that
  has been delivered. The two revisions queue different items and send different batch
  mails, hence the two type parameters.

  The file system is reliable: reading or unlinking a file that does not exist raises
  \<open>ENOENT\<close>, writing succeeds. Paths are joined textually.
\<close>

text \<open>A stored document has the shape of \<^verbatim>\<open>registrationSchema\<close>: \<^verbatim>\<open>serialNumber\<close> is a String
  (or absent) and carries the unique index.\<close>

record registration =
  serialNumber :: "string option"
  formFields :: jsobject
  certificateUrl :: jsval
  applicationFormUrl :: jsval

record ('q, 'm) server =
  counterFile :: "string option"
  tmpFiles :: "string set"
  store :: "registration list"
  fileQueue :: "'q list"
  facultyMail :: "'m list"
  studentMail :: "(jsval \<times> string) list"

text \<open>What the outside world does during one submission: whether the database answers,
  whether the browser and the template assets load, whether the PDF is written, what
  \<^verbatim>\<open>Date.now()\<close> returns, what Cloudinary answers (\<open>None\<close>: the upload is rejected;
  \<open>Some u\<close>: \<^verbatim>\<open>secure_url\<close> is \<open>u\<close>), and whether the mail service accepts the student's mail.
  The browser's \<^verbatim>\<open>String.prototype.toUpperCase\<close> is part of it too.\<close>

record env =
  find_ok :: bool
  cert_setup_ok :: bool
  cert_pdf_ok :: bool
  cert_now :: nat
  cert_cloud :: "string option"
  app_setup_ok :: bool
  app_pdf_ok :: bool
  app_now :: nat
  app_cloud :: "string option"
  save_ok :: bool
  student_mail_ok :: bool
  upper_case :: "string \<Rightarrow> string"

text \<open>The same for one run of the scheduled flush.\<close>

record flush_env =
  find_all_ok :: bool
  flush_now :: nat
  send_ok :: bool

definition outputDir :: string where
  "outputDir = ''output''"

definition path_join :: "string \<Rightarrow> string \<Rightarrow> string" where
  "path_join dir name = dir @ ''/'' @ name"

definition basename :: "string \<Rightarrow> string" where
  "basename p = last (split_on CHR ''/'' p)"

definition unlink :: "string \<Rightarrow> ('q, 'm) server \<Rightarrow> (error + unit) \<times> ('q, 'm) server" where
  "unlink p st =
     (if p \<in> tmpFiles st then (Inr (), st\<lparr>tmpFiles := tmpFiles st - {p}\<rparr>) else (Inl ENOENT, st))"

section \<open>Serial numbers\<close>

text \<open>File-backed revision (lines 69-78). \<^verbatim>\<open>parseInt\<close> sits inside the \<^verbatim>\<open>try\<close>, but only
  \<^verbatim>\<open>readFile\<close> can raise there.\<close>

definition getNextSerialNumber_v1 :: "('q, 'm) server \<Rightarrow> string \<times> ('q, 'm) server" where
  "getNextSerialNumber_v1 st =
     (let currentNumber =
            (case (case counterFile st of None \<Rightarrow> Inl ENOENT | Some data \<Rightarrow> Inr (parseInt10 data)) of
               Inl error \<Rightarrow> Num 818
             | Inr n \<Rightarrow> n);
          nextNumber = js_add1 currentNumber
      in (padStart 6 CHR ''0'' (toString nextNumber),
          st\<lparr>counterFile := Some (toString nextNumber)\<rparr>))"

text \<open>Strings compare by character code, as the store's default collation does; a
  document without the field sorts below every string.\<close>

fun str_less :: "string \<Rightarrow> string \<Rightarrow> bool" where
  "str_less [] [] = False"
| "str_less [] (y # ys) = True"
| "str_less (x # xs) [] = False"
| "str_less (x # xs) (y # ys) =
     ((of_char x :: nat) < of_char y \<or> (x = y \<and> str_less xs ys))"

definition key_less :: "string option \<Rightarrow> string option \<Rightarrow> bool" where
  "key_less a b =
     (case b of
        None \<Rightarrow> False
      | Some t \<Rightarrow> (case a of None \<Rightarrow> True | Some s \<Rightarrow> str_less s t))"

text \<open>\<^verbatim>\<open>Registration.findOne().sort({ serialNumber: -1 })\<close>: a document whose serial number is
  greatest in that order, or nothing when the collection is empty.\<close>

definition pick_greater :: "registration option \<Rightarrow> registration \<Rightarrow> registration option" where
  "pick_greater best r =
     (case best of
        None \<Rightarrow> Some r
      | Some b \<Rightarrow> if key_less (serialNumber b) (serialNumber r) then Some r else Some b)"

definition findOne_sorted :: "registration list \<Rightarrow> registration option" where
  "findOne_sorted rs = foldl pick_greater None rs"

text \<open>Store-derived revision (lines 417-429): the number computed from the document the
  query returned, then the function itself.\<close>

definition nextNumber_v2 :: "registration option \<Rightarrow> jsnum" where
  "nextNumber_v2 lastRegistration =
     (case lastRegistration of
        None \<Rightarrow> Num 819
      | Some r \<Rightarrow>
          (case serialNumber r of
             None \<Rightarrow> Num 819
           | Some s \<Rightarrow> if s = [] then Num 819 else js_add1 (parseInt10 s)))"

definition getNextSerialNumber_v2 :: "env \<Rightarrow> ('q, 'm) server \<Rightarrow> (error + string) \<times> ('q, 'm) server" where
  "getNextSerialNumber_v2 env st =
     (if \<not> find_ok env then (Inl DbError, st)
      else
        (let lastRegistration = findOne_sorted (store st);
             nextNumber = nextNumber_v2 lastRegistration
         in (Inr (padStart 6 CHR ''0'' (toString nextNumber)), st)))"

section \<open>Uploading and rendering\<close>

text \<open>\<^verbatim>\<open>uploadToCloudinary\<close>, first revision (lines 81-94): the body of the \<^verbatim>\<open>try\<close>, then the
  function with its \<^verbatim>\<open>catch\<close>. The owner name only enters the remote identifier.\<close>

definition upload_try_v1 ::
  "string \<Rightarrow> jsval \<Rightarrow> string option \<Rightarrow> ('q, 'm) server \<Rightarrow> (error + jsval) \<times> ('q, 'm) server" where
  "upload_try_v1 filePath studentName cloud st =
     (case cloud of
        None \<Rightarrow> (Inl UploadError, st)
      | Some secure_url \<Rightarrow>
          (case unlink filePath st of
             (Inl e, st') \<Rightarrow> (Inl e, st')
           | (Inr u, st') \<Rightarrow> (Inr (Str secure_url), st')))"

definition uploadToCloudinary_v1 ::
  "string \<Rightarrow> jsval \<Rightarrow> string option \<Rightarrow> ('q, 'm) server \<Rightarrow> (error + jsval) \<times> ('q, 'm) server" where
  "uploadToCloudinary_v1 filePath studentName cloud st =
     (case upload_try_v1 filePath studentName cloud st of
        (Inl error, st') \<Rightarrow> (Inr Null, st')
      | (Inr url, st') \<Rightarrow> (Inr url, st'))"

text \<open>Second revision (lines 431-448): no \<^verbatim>\<open>unlink\<close> in the \<^verbatim>\<open>try\<close>.\<close>

definition upload_try_v2 ::
  "string \<Rightarrow> jsval \<Rightarrow> string option \<Rightarrow> ('q, 'm) server \<Rightarrow> (error + jsval) \<times> ('q, 'm) server" where
  "upload_try_v2 filePath studentName cloud st =
     (case cloud of
        None \<Rightarrow> (Inl UploadError, st)
      | Some secure_url \<Rightarrow> (Inr (Str secure_url), st))"

definition uploadToCloudinary_v2 ::
  "string \<Rightarrow> jsval \<Rightarrow> string option \<Rightarrow> ('q, 'm) server \<Rightarrow> (error + jsval) \<times> ('q, 'm) server" where
  "uploadToCloudinary_v2 filePath studentName cloud st =
     (case upload_try_v2 filePath studentName cloud st of
        (Inl error, st') \<Rightarrow> (Inr Null, st')
      | (Inr url, st') \<Rightarrow> (Inr url, st'))"

text \<open>\<^verbatim>\<open>generateCertificate\<close> and \<^verbatim>\<open>generateApplicationFormPdf\<close> read the same in both
  revisions up to the uploader they call, which is a parameter here. Each is split in two:
  the steps up to \<^verbatim>\<open>page.pdf\<close>, which either raise or determine the path of the PDF, and
  the writing of the file followed by the upload. The result is the object
  \<^verbatim>\<open>{ path, url }\<close>.\<close>

definition render_certificate :: "env \<Rightarrow> jsobject \<Rightarrow> error + string" where
  "render_certificate env data =
     (if \<not> cert_setup_ok env then Inl RenderError
      else
        (case fill_certificate (upper_case env) data of
           Inl e \<Rightarrow> Inl e
         | Inr filled \<Rightarrow>
             (case replace_spaces (data ''applicantName'') of
                Inl e \<Rightarrow> Inl e
              | Inr name \<Rightarrow>
                  (let pdfFileName = ''Certificate-'' @ name @ ''-'' @ digits (cert_now env) @ ''.pdf'';
                       pdfPath = path_join outputDir pdfFileName
                   in if \<not> cert_pdf_ok env then Inl RenderError else Inr pdfPath))))"

definition generateCertificate ::
  "(string \<Rightarrow> jsval \<Rightarrow> string option \<Rightarrow> ('q, 'm) server \<Rightarrow> (error + jsval) \<times> ('q, 'm) server)
   \<Rightarrow> env \<Rightarrow> jsobject \<Rightarrow> ('q, 'm) server \<Rightarrow> (error + string \<times> jsval) \<times> ('q, 'm) server" where
  "generateCertificate uploadToCloudinary env data st =
     (case render_certificate env data of
        Inl e \<Rightarrow> (Inl e, st)
      | Inr pdfPath \<Rightarrow>
          (case uploadToCloudinary pdfPath (data ''applicantName'') (cert_cloud env)
                  (st\<lparr>tmpFiles := insert pdfPath (tmpFiles st)\<rparr>) of
             (Inl e, st') \<Rightarrow> (Inl e, st')
           | (Inr url, st') \<Rightarrow> (Inr (pdfPath, url), st')))"

definition render_application :: "env \<Rightarrow> jsobject \<Rightarrow> error + string" where
  "render_application env data =
     (if \<not> app_setup_ok env then Inl RenderError
      else
        (case fill_application data of
           Inl e \<Rightarrow> Inl e
         | Inr filled \<Rightarrow>
             (case replace_spaces (data ''applicantName'') of
                Inl e \<Rightarrow> Inl e
              | Inr name \<Rightarrow>
                  (let pdfFileName = ''Application-'' @ name @ ''-'' @ digits (app_now env) @ ''.pdf'';
                       pdfPath = path_join outputDir pdfFileName
                   in if \<not> app_pdf_ok env then Inl RenderError else Inr pdfPath))))"

definition generateApplicationFormPdf ::
  "(string \<Rightarrow> jsval \<Rightarrow> string option \<Rightarrow> ('q, 'm) server \<Rightarrow> (error + jsval) \<times> ('q, 'm) server)
   \<Rightarrow> env \<Rightarrow> jsobject \<Rightarrow> ('q, 'm) server \<Rightarrow> (error + string \<times> jsval) \<times> ('q, 'm) server" where
  "generateApplicationFormPdf uploadToCloudinary env data st =
     (case render_application env data of
        Inl e \<Rightarrow> (Inl e, st)
      | Inr pdfPath \<Rightarrow>
          (case uploadToCloudinary pdfPath (data ''applicantName'') (app_cloud env)
                  (st\<lparr>tmpFiles := insert pdfPath (tmpFiles st)\<rparr>) of
             (Inl e, st') \<Rightarrow> (Inl e, st')
           | (Inr url, st') \<Rightarrow> (Inr (pdfPath, url), st')))"

section \<open>Persisting, mailing and the request handler\<close>

text \<open>\<^verbatim>\<open>newRegistration.save()\<close>: the unique index on \<^verbatim>\<open>serialNumber\<close> rejects a serial
  number that a stored document already has.\<close>

definition save :: "env \<Rightarrow> registration \<Rightarrow> ('q, 'm) server \<Rightarrow> (error + unit) \<times> ('q, 'm) server" where
  "save env doc st =
     (if \<not> save_ok env then (Inl DbError, st)
      else if serialNumber doc \<in> set (map serialNumber (store st)) then (Inl DuplicateKey, st)
      else (Inr (), st\<lparr>store := store st @ [doc]\<rparr>))"

text \<open>\<^verbatim>\<open>sendStudentEmail\<close>: a failed send is logged and swallowed. The second revision reads
  the attachment itself, inside the same \<^verbatim>\<open>try\<close>.\<close>

definition sendStudentEmail_v1 :: "env \<Rightarrow> jsobject \<Rightarrow> string \<Rightarrow> ('q, 'm) server \<Rightarrow> ('q, 'm) server" where
  "sendStudentEmail_v1 env data applicationFormPath st =
     (case (if student_mail_ok env then Inr () else Inl MailError) of
        Inl error \<Rightarrow> st
      | Inr u \<Rightarrow> st\<lparr>studentMail := studentMail st @ [(data ''email'', applicationFormPath)]\<rparr>)"

definition sendStudentEmail_v2 :: "env \<Rightarrow> jsobject \<Rightarrow> string \<Rightarrow> ('q, 'm) server \<Rightarrow> ('q, 'm) server" where
  "sendStudentEmail_v2 env data applicationFormPath st =
     (case (if applicationFormPath \<notin> tmpFiles st then Inl ENOENT
            else if student_mail_ok env then Inr () else Inl MailError) of
        Inl error \<Rightarrow> st
      | Inr u \<Rightarrow> st\<lparr>studentMail := studentMail st @ [(data ''email'', applicationFormPath)]\<rparr>)"

text \<open>Queue items and batch mails of the first revision: local files, sent as attachments.\<close>

record file_item =
  item_type :: string
  item_path :: string

record batch_mail_v1 =
  mail_students :: string
  mail_attachments :: "(string \<times> string) list"

text \<open>Queue items and batch mails of the second revision: one entry per student, sent as
  a list of links together with the spreadsheet of all registrations.\<close>

record link_item =
  studentName :: jsval
  link_certificateUrl :: jsval
  link_applicationFormUrl :: jsval

record batch_mail_v2 =
  mail_count :: nat
  mail_links :: "link_item list"
  mail_report :: "registration list"

type_synonym server_v1 = "(file_item, batch_mail_v1) server"
type_synonym server_v2 = "(link_item, batch_mail_v2) server"

text \<open>\<^verbatim>\<open>app.post('/api/submit-form')\<close>, first revision (lines 306-338). The result is the
  HTTP status of the response and the state the request leaves behind.\<close>

definition submit_form_v1 :: "env \<Rightarrow> jsobject \<Rightarrow> server_v1 \<Rightarrow> nat \<times> server_v1" where
  "submit_form_v1 env body st =
     (case getNextSerialNumber_v1 st of
        (serial, st1) \<Rightarrow>
          (let fullFormData = body(''serialNumber'' := Str serial)
           in case generateCertificate uploadToCloudinary_v1 env fullFormData st1 of
                (Inl error, st2) \<Rightarrow> (500, st2)
              | (Inr certificate, st2) \<Rightarrow>
                  (case generateApplicationFormPdf uploadToCloudinary_v1 env fullFormData st2 of
                     (Inl error, st3) \<Rightarrow> (500, st3)
                   | (Inr applicationForm, st3) \<Rightarrow>
                       (let dbData = \<lparr> serialNumber = Some serial, formFields = fullFormData,
                                       certificateUrl = snd certificate,
                                       applicationFormUrl = snd applicationForm \<rparr>
                        in case save env dbData st3 of
                             (Inl error, st4) \<Rightarrow> (500, st4)
                           | (Inr u, st4) \<Rightarrow>
                               (let st5 = sendStudentEmail_v1 env fullFormData (fst applicationForm) st4;
                                    st6 = st5\<lparr>fileQueue := fileQueue st5 @
                                            [\<lparr> item_type = ''certificate'', item_path = fst certificate \<rparr>,
                                             \<lparr> item_type = ''application'', item_path = fst applicationForm \<rparr>]\<rparr>
                                in (200, st6))))))"

text \<open>Second revision (lines 697-734): the queue gets one link entry, and the handler
  unlinks both local files before it answers.\<close>

definition submit_form_v2 :: "env \<Rightarrow> jsobject \<Rightarrow> server_v2 \<Rightarrow> nat \<times> server_v2" where
  "submit_form_v2 env body st =
     (case getNextSerialNumber_v2 env st of
        (Inl error, st1) \<Rightarrow> (500, st1)
      | (Inr serial, st1) \<Rightarrow>
          (let fullFormData = body(''serialNumber'' := Str serial)
           in case generateCertificate uploadToCloudinary_v2 env fullFormData st1 of
                (Inl error, st2) \<Rightarrow> (500, st2)
              | (Inr certificate, st2) \<Rightarrow>
                  (case generateApplicationFormPdf uploadToCloudinary_v2 env fullFormData st2 of
                     (Inl error, st3) \<Rightarrow> (500, st3)
                   | (Inr applicationForm, st3) \<Rightarrow>
                       (let dbData = \<lparr> serialNumber = Some serial, formFields = fullFormData,
                                       certificateUrl = snd certificate,
                                       applicationFormUrl = snd applicationForm \<rparr>
                        in case save env dbData st3 of
                             (Inl error, st4) \<Rightarrow> (500, st4)
                           | (Inr u, st4) \<Rightarrow>
                               (let st5 = sendStudentEmail_v2 env fullFormData (fst applicationForm) st4;
                                    st6 = st5\<lparr>fileQueue := fileQueue st5 @
                                            [\<lparr> studentName = fullFormData ''applicantName'',
                                               link_certificateUrl = snd certificate,
                                               link_applicationFormUrl = snd applicationForm \<rparr>]\<rparr>
                                in case unlink (fst certificate) st6 of
                                     (Inl error, st7) \<Rightarrow> (500, st7)
                                   | (Inr u, st7) \<Rightarrow>
                                       (case unlink (fst applicationForm) st7 of
                                          (Inl error, st8) \<Rightarrow> (500, st8)
                                        | (Inr u, st8) \<Rightarrow> (200, st8)))))))"

section \<open>The scheduled batch mail\<close>

text \<open>\<^verbatim>\<open>${fileQueue.length / 2}\<close> as text.\<close>

definition js_half :: "nat \<Rightarrow> string" where
  "js_half n = digits (n div 2) @ (if odd n then ''.5'' else [])"

definition report_path :: "flush_env \<Rightarrow> string" where
  "report_path fenv = path_join outputDir (''report-'' @ digits (flush_now fenv) @ ''.xlsx'')"

text \<open>First revision (lines 242-297). The query and the spreadsheet are made before the
  \<^verbatim>\<open>try\<close>, so a failing query leaves the function as an exception. After a successful send
  each queued file is unlinked with its own \<^verbatim>\<open>catch\<close>, then the spreadsheet, then the queue
  is emptied.\<close>

definition sendBatchedFacultyEmail_v1 :: "flush_env \<Rightarrow> server_v1 \<Rightarrow> (error + unit) \<times> server_v1" where
  "sendBatchedFacultyEmail_v1 fenv st =
     (if fileQueue st = [] then (Inr (), st)
      else
        (let attachments = map (\<lambda>item. (basename (item_path item), item_path item)) (fileQueue st)
         in if \<not> find_all_ok fenv then (Inl DbError, st)
            else
              (let tempExcelPath = report_path fenv;
                   st1 = st\<lparr>tmpFiles := insert tempExcelPath (tmpFiles st)\<rparr>;
                   mailOptions = \<lparr> mail_students = js_half (length (fileQueue st1)),
                                   mail_attachments =
                                     attachments @ [(''Master_Registration_Report.xlsx'', tempExcelPath)] \<rparr>
               in case (if send_ok fenv then Inr () else Inl MailError) of
                    Inl error \<Rightarrow> (Inr (), st1)
                  | Inr u \<Rightarrow>
                      (let st2 = st1\<lparr>facultyMail := facultyMail st1 @ [mailOptions]\<rparr>;
                           st3 = foldl (\<lambda>s file. snd (unlink (item_path file) s)) st2 (fileQueue st2)
                       in case unlink tempExcelPath st3 of
                            (Inl error, st4) \<Rightarrow> (Inr (), st4)
                          | (Inr u, st4) \<Rightarrow> (Inr (), st4\<lparr>fileQueue := []\<rparr>)))))"

text \<open>Second revision (lines 601-686): everything after the emptiness test is inside the
  \<^verbatim>\<open>try\<close>.\<close>

definition flush_try_v2 :: "flush_env \<Rightarrow> server_v2 \<Rightarrow> (error + unit) \<times> server_v2" where
  "flush_try_v2 fenv st =
     (if \<not> find_all_ok fenv then (Inl DbError, st)
      else
        (let allRegistrations = store st;
             tempExcelPath = report_path fenv;
             st1 = st\<lparr>tmpFiles := insert tempExcelPath (tmpFiles st)\<rparr>
         in if tempExcelPath \<notin> tmpFiles st1 then (Inl ENOENT, st1)
            else
              (let mailOptions = \<lparr> mail_count = length (fileQueue st1),
                                   mail_links = fileQueue st1,
                                   mail_report = allRegistrations \<rparr>
               in if \<not> send_ok fenv then (Inl MailError, st1)
                  else
                    (case unlink tempExcelPath (st1\<lparr>facultyMail := facultyMail st1 @ [mailOptions]\<rparr>) of
                       (Inl error, st2) \<Rightarrow> (Inl error, st2)
                     | (Inr u, st2) \<Rightarrow> (Inr (), st2\<lparr>fileQueue := []\<rparr>)))))"

definition sendBatchedFacultyEmail_v2 :: "flush_env \<Rightarrow> server_v2 \<Rightarrow> (error + unit) \<times> server_v2" where
  "sendBatchedFacultyEmail_v2 fenv st =
     (if fileQueue st = [] then (Inr (), st)
      else
        (case flush_try_v2 fenv st of
           (Inl error, st') \<Rightarrow> (Inr (), st')
         | (Inr u, st') \<Rightarrow> (Inr (), st')))"

section \<open>Submissions handled one after the other\<close>



text \<open>Every serial number the file-backed allocator hands out, whatever becomes of the
  submission.\<close>

fun issued_v1 :: "(env \<times> jsobject) list \<Rightarrow> server_v1 \<Rightarrow> string list" where
  "issued_v1 [] st = []"
| "issued_v1 (r # rs) st =
     fst (getNextSerialNumber_v1 st) # issued_v1 rs (snd (submit_form_v1 (fst r) (snd r) st))"

section \<open>Notions used to state the results\<close>

text \<open>The number the file-backed allocator starts from: the seed when the file is
  missing, else what \<^verbatim>\<open>parseInt\<close> makes of its content.\<close>

definition current_number :: "('q, 'm) server \<Rightarrow> jsnum" where
  "current_number st = (case counterFile st of None \<Rightarrow> Num 818 | Some data \<Rightarrow> parseInt10 data)"

abbreviation serial_text :: "jsnum \<Rightarrow> string" where
  "serial_text n \<equiv> padStart 6 CHR ''0'' (toString n)"

abbreviation next_serial_v2 :: "registration list \<Rightarrow> string" where
  "next_serial_v2 rs \<equiv> serial_text (nextNumber_v2 (findOne_sorted rs))"

abbreviation serials :: "registration list \<Rightarrow> string option set" where
  "serials rs \<equiv> set (map serialNumber rs)"

text \<open>The value the cloud's answer becomes in the record.\<close>

definition url_of :: "string option \<Rightarrow> jsval" where
  "url_of cloud = (case cloud of None \<Rightarrow> Null | Some u \<Rightarrow> Str u)"


text \<open>Where the model is the code: text without a byte above 127, and a number whose
  magnitude leaves room for \<open>n\<close> increments below \<open>2^53\<close>. The counter a run of \<open>n\<close> requests
  starts from is in range when the counter file is missing or is such text, and the
  number read from it (or the seed) is not a number or at least \<open>-1\<close> and in range. A store
  is in range when each of its serial numbers is such text and reads as such a number.\<close>

definition ascii :: "string \<Rightarrow> bool" where
  "ascii s = list_all (\<lambda>c. (of_char c :: nat) < 128) s"

definition in_range :: "nat \<Rightarrow> jsnum \<Rightarrow> bool" where
  "in_range n x = (case x of NaN \<Rightarrow> True | Num k \<Rightarrow> \<bar>k\<bar> + int n < 2 ^ 53)"

definition counter_in_range :: "nat \<Rightarrow> ('q, 'm) server \<Rightarrow> bool" where
  "counter_in_range n st =
     ((case counterFile st of None \<Rightarrow> True | Some data \<Rightarrow> ascii data)
      \<and> in_range n (current_number st)
      \<and> (case current_number st of NaN \<Rightarrow> True | Num k \<Rightarrow> - 1 \<le> k))"


section \<open>Sample inputs\<close>

text \<open>Upper-casing of ASCII text, for the sample outside world.\<close>

definition upper_char :: "char \<Rightarrow> char" where
  "upper_char c =
     (if 97 \<le> (of_char c :: nat) \<and> (of_char c :: nat) \<le> 122 then char_of ((of_char c :: nat) - 32) else c)"

text \<open>Concrete inputs on which the results below are instantiated: an outside world in
  which every step works, a registration form, a server that has just started, three
  requests of which the second fails at \<^verbatim>\<open>save\<close>, and the inputs of a flush.\<close>

definition sample_env :: env where
  "sample_env =
     \<lparr> find_ok = True, cert_setup_ok = True, cert_pdf_ok = True, cert_now = 1700,
       cert_cloud = Some ''https://cdn/c'', app_setup_ok = True, app_pdf_ok = True, app_now = 1701,
       app_cloud = Some ''https://cdn/a'', save_ok = True, student_mail_ok = True,
       upper_case = map upper_char \<rparr>"

definition sample_body :: jsobject where
  "sample_body =
     (\<lambda>k. Undefined)(''applicantName'' := Str ''Asha Rao'', ''fatherName'' := Str ''Mohan'',
       ''courseName'' := Str ''cad'', ''gender'' := Str ''Ms.'')"

definition empty_server :: "('q, 'm) server" where
  "empty_server =
     \<lparr> counterFile = None, tmpFiles = {}, store = [], fileQueue = [], facultyMail = [],
       studentMail = [] \<rparr>"


definition sample_flush :: flush_env where
  "sample_flush = \<lparr> find_all_ok = True, flush_now = 1800, send_ok = True \<rparr>"

definition sample_queue_v1 :: "file_item list" where
  "sample_queue_v1 =
     [\<lparr> item_type = ''certificate'', item_path = ''output/Certificate-Asha_Rao-1700.pdf'' \<rparr>,
      \<lparr> item_type = ''application'', item_path = ''output/Application-Asha_Rao-1701.pdf'' \<rparr>]"

definition sample_queue_v2 :: "link_item list" where
  "sample_queue_v2 =
     [\<lparr> studentName = Str ''Asha Rao'', link_certificateUrl = Str ''https://cdn/c'',
        link_applicationFormUrl = Null \<rparr>]"

section \<open>Dates and the certificate text\<close>

lemma split_on_nonempty: "split_on d s \<noteq> []"
  by (induction s) (auto split: list.splits)

lemma split_on_no_sep: "d \<notin> set s \<Longrightarrow> split_on d s = [s]"
  by (induction s) auto

lemma split_on_append: "d \<notin> set a \<Longrightarrow> split_on d (a @ d # b) = a # split_on d b"
  by (induction a) auto

lemma length_split_on: "length (split_on d s) = Suc (count_list s d)"
  by (induction s) (auto split: list.splits simp: split_on_nonempty)

lemma split_on_join: "split_on d s = p # ps \<Longrightarrow> s = p @ concat (map (\<lambda>q. d # q) ps)"
proof (induction s arbitrary: p ps)
  case Nil
  then show ?case by simp
next
  case (Cons c cs)
  show ?case
  proof (cases "c = d")
    case True
    with Cons.prems have "p = []" "ps = split_on d cs" by simp_all
    moreover obtain q qs where q: "split_on d cs = q # qs"
      using split_on_nonempty [of d cs] by (cases "split_on d cs") simp_all
    ultimately show ?thesis using Cons.IH [OF q] True by simp
  next
    case False
    then obtain q where q: "split_on d cs = q # ps" "p = c # q"
      using Cons.prems split_on_nonempty [of d cs] by (auto split: list.splits)
    then show ?thesis using Cons.IH [OF q(1)] by simp
  qed
qed

lemma split_on_three:
  assumes "count_list s d = 2"
  shows "\<exists>y m dd. s = y @ d # m @ d # dd \<and> split_on d s = [y, m, dd]"
proof -
  have "length (split_on d s) = 3"
    using assms length_split_on by simp
  then obtain y m dd where p: "split_on d s = [y, m, dd]"
    by (auto simp: length_Suc_conv numeral_3_eq_3)
  from split_on_join [OF p] have "s = y @ d # m @ d # dd" by simp
  with p show ?thesis by blast
qed

lemma formatDate_three_parts:
  assumes "CHR ''-'' \<notin> set y" "CHR ''-'' \<notin> set m" "CHR ''-'' \<notin> set d"
  shows "formatDate (Str (y @ ''-'' @ m @ ''-'' @ d)) = d @ ''-'' @ m @ ''-'' @ y"
  using assms by (simp add: formatDate_def split_on_append split_on_no_sep)

lemma formatDate_two_dashes:
  assumes "count_list s CHR ''-'' = 2"
  shows "\<exists>year month day. s = year @ ''-'' @ month @ ''-'' @ day
           \<and> formatDate (Str s) = day @ ''-'' @ month @ ''-'' @ year"
proof -
  obtain y m dd where p: "s = y @ CHR ''-'' # m @ CHR ''-'' # dd" "split_on CHR ''-'' s = [y, m, dd]"
    using split_on_three [OF assms] by blast
  from p(1) have "s \<noteq> []" by simp
  then have "formatDate (Str s) = dd @ ''-'' @ m @ ''-'' @ y"
    using p(2) by (simp add: formatDate_def)
  with p(1) show ?thesis by auto
qed

lemma formatDate_other_shape:
  assumes "count_list s CHR ''-'' \<noteq> 2"
  shows "formatDate (Str s) = s"
proof -
  have "length (split_on CHR ''-'' s) \<noteq> 3"
    using assms by (simp add: length_split_on)
  then show ?thesis
    by (auto simp: formatDate_def split: list.splits)
qed

lemma formatDate_example: "formatDate (Str ''2024-05-07'') = ''07-05-2024''"
  by (simp add: formatDate_def)

lemma formatDate_not_a_string:
  "formatDate Undefined = [] \<and> formatDate Null = [] \<and> formatDate (Number n) = []"
  by (simp add: formatDate_def)

text \<open>
  Claim C5. A string is of the three-part shape exactly when it holds two dashes.
  \<^verbatim>\<open>formatDate\<close> turns every such string \<open>year-month-day\<close> into \<open>day-month-year\<close>, whatever
  the three parts are, and returns every other string as it is; \<open>2024-05-07\<close> becomes
  \<open>07-05-2024\<close>.
\<close>

theorem formatDate_reorders_or_passes:
  "(CHR ''-'' \<notin> set year \<and> CHR ''-'' \<notin> set month \<and> CHR ''-'' \<notin> set day \<longrightarrow>
      formatDate (Str (year @ ''-'' @ month @ ''-'' @ day)) = day @ ''-'' @ month @ ''-'' @ year)
   \<and> (count_list s CHR ''-'' = 2 \<longrightarrow>
        (\<exists>y m d. s = y @ ''-'' @ m @ ''-'' @ d \<and> formatDate (Str s) = d @ ''-'' @ m @ ''-'' @ y))
   \<and> (count_list s CHR ''-'' \<noteq> 2 \<longrightarrow> formatDate (Str s) = s)
   \<and> formatDate (Str ''2024-05-07'') = ''07-05-2024''"
  using formatDate_three_parts [of year month day] formatDate_two_dashes [of s]
    formatDate_other_shape [of s] formatDate_example
  by blast

theorem formatDate_reorders_or_passes_witness:
  "formatDate (Str (''1999'' @ ''-'' @ ''12'' @ ''-'' @ ''31'')) = ''31'' @ ''-'' @ ''12'' @ ''-'' @ ''1999''
   \<and> count_list ''1999-12-31'' CHR ''-'' = 2
   \<and> (\<exists>y m d. ''1999-12-31'' = y @ ''-'' @ m @ ''-'' @ d
        \<and> formatDate (Str ''1999-12-31'') = d @ ''-'' @ m @ ''-'' @ y)
   \<and> count_list ''07/05/2024'' CHR ''-'' \<noteq> 2
   \<and> formatDate (Str ''07/05/2024'') = ''07/05/2024''
   \<and> count_list ''2024-05'' CHR ''-'' \<noteq> 2
   \<and> formatDate (Str ''2024-05'') = ''2024-05''"
proof -
  have a: "\<exists>y m d. ''1999-12-31'' = y @ ''-'' @ m @ ''-'' @ d
        \<and> formatDate (Str ''1999-12-31'') = d @ ''-'' @ m @ ''-'' @ y"
    using formatDate_reorders_or_passes [of "''2000''" "''01''" "''02''" "''1999-12-31''"]
    by simp
  have b: "formatDate (Str (''1999'' @ ''-'' @ ''12'' @ ''-'' @ ''31'')) = ''31'' @ ''-'' @ ''12'' @ ''-'' @ ''1999''"
     "formatDate (Str ''07/05/2024'') = ''07/05/2024''"
     "formatDate (Str ''2024-05'') = ''2024-05''"
    using formatDate_reorders_or_passes [of "''1999''" "''12''" "''31''" "''07/05/2024''"]
      formatDate_reorders_or_passes [of "''1999''" "''12''" "''31''" "''2024-05''"]
    by simp_all
  have c: "count_list ''1999-12-31'' CHR ''-'' = 2" "count_list ''07/05/2024'' CHR ''-'' \<noteq> 2"
    "count_list ''2024-05'' CHR ''-'' \<noteq> 2" by simp_all
  show ?thesis using a b c by blast
qed

lemma mainText_text:
  assumes "data ''applicantName'' = Str n" and "data ''fatherName'' = Str f"
  shows "mainText upper data =
     Inr (''This is to certify that <strong>''
          @ (if data ''gender'' = Str ''Mr.'' then ''Mr. ''
             else if data ''gender'' = Str ''Ms.'' then ''Ms. '' else [])
          @ upper n @ ''</strong>''
          @ (if data ''gender'' = Str ''Mr.'' then '' S/o ''
             else if data ''gender'' = Str ''Ms.'' then '' D/o '' else '' S/o / D/o '')
          @ ''<strong>'' @ upper f @ ''</strong> is awarded this certificate in recognition'')"
  using assms by (simp add: mainText_def toUpperCase_def)

lemma fill_certificate_succeeds_iff:
  "(\<exists>filled. fill_certificate upper data = Inr filled) \<longleftrightarrow>
     (\<exists>n f c. data ''applicantName'' = Str n \<and> data ''fatherName'' = Str f \<and> data ''courseName'' = Str c)"
  by (auto simp: fill_certificate_def mainText_def toUpperCase_def split: sum.splits jsval.splits if_splits)

lemma render_certificate_fills:
  "render_certificate env data = Inr pdfPath
     \<Longrightarrow> \<exists>filled. fill_certificate (upper_case env) data = Inr filled"
  by (auto simp: render_certificate_def split: if_splits sum.splits)

text \<open>
  Claim C4. The text that \<^verbatim>\<open>generateCertificate\<close> writes into the element
  \<^verbatim>\<open>cert-main-text\<close> of the certificate. The page is filled exactly for the records whose
  applicant name, father's name and course name are strings, and a certificate is made
  only when the page has been filled (the two lemmas above); any other record raises. For every such record, and whatever
  \<^verbatim>\<open>toUpperCase\<close> makes of the two names, the text is fixed up to the salutation: gender
  \<open>Mr.\<close> gives \<open>Mr.\<close> before the name and \<open>S/o\<close> after it, gender \<open>Ms.\<close> gives \<open>Ms.\<close> and
  \<open>D/o\<close>, and every other value of the field, an absent one too, gives no title and
  \<open>S/o / D/o\<close>.
\<close>

theorem certificate_text_by_gender:
  assumes "data ''applicantName'' = Str n" and "data ''fatherName'' = Str f"
    and "data ''courseName'' = Str c"
  shows "\<exists>filled. fill_certificate upper data = Inr filled
     \<and> cert_main_text filled =
         ''This is to certify that <strong>''
          @ (if data ''gender'' = Str ''Mr.'' then ''Mr. ''
             else if data ''gender'' = Str ''Ms.'' then ''Ms. '' else [])
          @ upper n @ ''</strong>''
          @ (if data ''gender'' = Str ''Mr.'' then '' S/o ''
             else if data ''gender'' = Str ''Ms.'' then '' D/o '' else '' S/o / D/o '')
          @ ''<strong>'' @ upper f @ ''</strong> is awarded this certificate in recognition''"
  using assms mainText_text [OF assms(1,2), of upper]
  by (simp add: fill_certificate_def toUpperCase_def)

theorem certificate_text_by_gender_witness:
  "(\<exists>filled. fill_certificate (map upper_char)
        ((\<lambda>k. Undefined)(''gender'' := Str ''Mr.'', ''applicantName'' := Str ''Ravi K'',
           ''fatherName'' := Str ''Mohan'', ''courseName'' := Str ''cad'')) = Inr filled
      \<and> cert_main_text filled =
          ''This is to certify that <strong>Mr. RAVI K</strong> S/o <strong>MOHAN</strong> is awarded this certificate in recognition'')
   \<and> (\<exists>filled. fill_certificate (map upper_char)
        ((\<lambda>k. Undefined)(''gender'' := Str ''Ms.'', ''applicantName'' := Str ''Asha'',
           ''fatherName'' := Str ''Mohan'', ''courseName'' := Str ''cad'')) = Inr filled
      \<and> cert_main_text filled =
          ''This is to certify that <strong>Ms. ASHA</strong> D/o <strong>MOHAN</strong> is awarded this certificate in recognition'')
   \<and> (\<exists>filled. fill_certificate (map upper_char)
        ((\<lambda>k. Undefined)(''gender'' := Str ''Mx.'', ''applicantName'' := Str ''Asha'',
           ''fatherName'' := Str ''Mohan'', ''courseName'' := Str ''cad'')) = Inr filled
      \<and> cert_main_text filled =
          ''This is to certify that <strong>ASHA</strong> S/o / D/o <strong>MOHAN</strong> is awarded this certificate in recognition'')"
proof -
  have up: "map upper_char ''Ravi K'' = ''RAVI K''" "map upper_char ''Asha'' = ''ASHA''"
    "map upper_char ''Mohan'' = ''MOHAN''"
    by code_simp+
  show ?thesis
    using
      certificate_text_by_gender [of "(\<lambda>k. Undefined)(''gender'' := Str ''Mr.'', ''applicantName'' := Str ''Ravi K'',
          ''fatherName'' := Str ''Mohan'', ''courseName'' := Str ''cad'')" "''Ravi K''" "''Mohan''" "''cad''"
          "map upper_char"]
      certificate_text_by_gender [of "(\<lambda>k. Undefined)(''gender'' := Str ''Ms.'', ''applicantName'' := Str ''Asha'',
          ''fatherName'' := Str ''Mohan'', ''courseName'' := Str ''cad'')" "''Asha''" "''Mohan''" "''cad''"
          "map upper_char"]
      certificate_text_by_gender [of "(\<lambda>k. Undefined)(''gender'' := Str ''Mx.'', ''applicantName'' := Str ''Asha'',
          ''fatherName'' := Str ''Mohan'', ''courseName'' := Str ''cad'')" "''Asha''" "''Mohan''" "''cad''"
          "map upper_char"]
    unfolding up by simp
qed

section \<open>The uploader\<close>

lemma uploadToCloudinary_v1_result:
  "uploadToCloudinary_v1 filePath owner cloud st =
     (case cloud of
        None \<Rightarrow> (Inr Null, st)
      | Some u \<Rightarrow>
          if filePath \<in> tmpFiles st then (Inr (Str u), st\<lparr>tmpFiles := tmpFiles st - {filePath}\<rparr>)
          else (Inr Null, st))"
  by (simp add: uploadToCloudinary_v1_def upload_try_v1_def unlink_def split: option.splits)

lemma uploadToCloudinary_v2_result:
  "uploadToCloudinary_v2 filePath owner cloud st =
     (Inr (case cloud of None \<Rightarrow> Null | Some u \<Rightarrow> Str u), st)"
  by (simp add: uploadToCloudinary_v2_def upload_try_v2_def split: option.splits)

lemma upload_try_raises:
  "fst (upload_try_v1 filePath owner None st) = Inl UploadError
   \<and> fst (upload_try_v2 filePath owner None st) = Inl UploadError"
  by (simp add: upload_try_v1_def upload_try_v2_def)

text \<open>
  Claim C9. In both revisions \<^verbatim>\<open>uploadToCloudinary\<close> returns a value for every path, owner
  name, answer of the storage service and state: the URL when the service accepts the
  file (in the first revision, when the local file could also be unlinked), and
  \<^verbatim>\<open>null\<close> otherwise. What the body of the \<^verbatim>\<open>try\<close> raises never leaves the function.
\<close>

theorem uploadToCloudinary_never_raises:
  "fst (uploadToCloudinary_v1 filePath owner cloud st) =
     Inr (case cloud of None \<Rightarrow> Null | Some u \<Rightarrow> if filePath \<in> tmpFiles st then Str u else Null)
   \<and> fst (uploadToCloudinary_v2 filePath owner cloud st) =
     Inr (case cloud of None \<Rightarrow> Null | Some u \<Rightarrow> Str u)"
  by (simp add: uploadToCloudinary_v1_result uploadToCloudinary_v2_result split: option.splits)

section \<open>The allocator's fallback\<close>

lemma parseInt10_abc: "parseInt10 ''abc'' = NaN" "parseInt10 [] = NaN"
  by code_simp+

lemma padStart_NaN: "padStart 6 CHR ''0'' ''NaN'' = ''000NaN''"
  by code_simp

lemma toString_NaN: "toString NaN = ''NaN''"
  by (simp add: toString_def)

lemma parseInt10_NaN_file: "parseInt10 ''NaN'' = NaN"
  by code_simp

lemma padStart_819: "padStart 6 CHR ''0'' (toString (Num 819)) = ''000819''"
  by code_simp

lemma getNextSerialNumber_v1_missing_file:
  "counterFile st = None \<Longrightarrow> fst (getNextSerialNumber_v1 st) = ''000819''"
  by (simp add: getNextSerialNumber_v1_def js_add1_def padStart_819)

lemma getNextSerialNumber_v2_empty_store:
  "store st = [] \<Longrightarrow> find_ok env \<Longrightarrow> fst (getNextSerialNumber_v2 env st) = Inr ''000819''"
  by (simp add: getNextSerialNumber_v2_def findOne_sorted_def nextNumber_v2_def padStart_819)

text \<open>
  Claim C3, at a counter file that holds \<open>abc\<close>, and at one that is empty: \<^verbatim>\<open>parseInt\<close>
  raises nothing and yields \<open>NaN\<close>, so the seed of the \<^verbatim>\<open>catch\<close> is not used; the serial
  number is \<open>000NaN\<close> and the file is rewritten to \<open>NaN\<close>. With a missing file, and in the
  second revision with an empty store, the serial number is \<open>000819\<close> (the two lemmas
  above).
\<close>

theorem getNextSerialNumber_v1_corrupt_file:
  "fst (getNextSerialNumber_v1 (st\<lparr>counterFile := Some ''abc''\<rparr>)) = ''000NaN''
   \<and> counterFile (snd (getNextSerialNumber_v1 (st\<lparr>counterFile := Some ''abc''\<rparr>))) = Some ''NaN''
   \<and> fst (getNextSerialNumber_v1 (st\<lparr>counterFile := Some []\<rparr>)) = ''000NaN''
   \<and> fst (getNextSerialNumber_v1 (snd (getNextSerialNumber_v1 (st\<lparr>counterFile := Some ''abc''\<rparr>)))) = ''000NaN''"
  by (simp add: getNextSerialNumber_v1_def parseInt10_abc js_add1_def padStart_NaN toString_NaN
      parseInt10_NaN_file)

section \<open>Numbers and their text\<close>

lemma digit_char_val: "d < 10 \<Longrightarrow> digit_val (digit_char d) = d"
  by (simp add: digit_char_def digit_val_def)

lemma digit_char_is_digit: "is_digit (digit_char d)"
  by (simp add: digit_char_def is_digit_def)

lemma is_digit_not_space: "is_digit c \<Longrightarrow> \<not> is_space c"
  by (auto simp: is_digit_def is_space_def)

lemma is_digit_not_sign: "is_digit c \<Longrightarrow> c \<noteq> CHR ''-'' \<and> c \<noteq> CHR ''+''"
  by (auto simp: is_digit_def)

lemma minus_not_space: "\<not> is_space CHR ''-''" "\<not> is_digit CHR ''-''" "is_digit CHR ''0''"
  by (simp_all add: is_space_def is_digit_def)

lemma digits_all_digit: "c \<in> set (digits n) \<Longrightarrow> is_digit c"
proof (induction n arbitrary: c rule: digits.induct)
  case (1 n)
  then show ?case
    by (subst (asm) (2) digits.simps) (auto simp: digit_char_is_digit split: if_splits)
qed

lemma digits_nonempty: "digits n \<noteq> []"
  by (subst digits.simps) simp

lemma digits_value_snoc: "digits_value (ds @ [c]) = 10 * digits_value ds + digit_val c"
  by (simp add: digits_value_def)

lemma digits_value_digits: "digits_value (digits n) = n"
proof (induction n rule: digits.induct)
  case (1 n)
  show ?case
  proof (cases "n < 10")
    case True
    then show ?thesis by (subst digits.simps) (simp add: digits_value_def digit_char_val)
  next
    case False
    then have "digits_value (digits (n div 10)) = n div 10" using 1 by simp
    with False show ?thesis
      by (subst digits.simps) (simp add: digits_value_snoc digit_char_val)
  qed
qed

lemma digits_value_zeros: "digits_value (replicate z CHR ''0'' @ ds) = digits_value ds"
proof -
  have "foldl (\<lambda>a c. 10 * a + digit_val c) 0 (replicate z CHR ''0'') = 0"
    by (induction z) (simp_all add: digit_val_def)
  then show ?thesis by (simp add: digits_value_def)
qed

lemma takeWhile_all: "(\<And>c. c \<in> set xs \<Longrightarrow> P c) \<Longrightarrow> takeWhile P xs = xs"
  by (induction xs) auto

lemma parseInt10_digits_then:
  assumes "ds \<noteq> []" "\<And>c. c \<in> set ds \<Longrightarrow> is_digit c" "rest = [] \<or> \<not> is_digit (hd rest)"
  shows "parseInt10 (ds @ rest) = Num (int (digits_value ds))"
proof -
  obtain c cs where ds: "ds = c # cs" using assms(1) by (cases ds) auto
  have c: "is_digit c" using assms(2) ds by simp
  have dw: "dropWhile is_space (ds @ rest) = ds @ rest"
    using c ds by (simp add: is_digit_not_space)
  have tw: "takeWhile is_digit (ds @ rest) = ds"
  proof (cases rest)
    case Nil
    then show ?thesis using assms(2) by (simp add: takeWhile_all)
  next
    case (Cons r rs)
    then have "\<not> is_digit r" using assms(3) by simp
    then show ?thesis using assms(2) Cons by (simp add: takeWhile_tail takeWhile_all)
  qed
  show ?thesis
    using is_digit_not_sign [OF c] assms(1) tw
    unfolding parseInt10_def dw by (simp add: ds Let_def)
qed

lemma parseInt10_minus_digits:
  assumes "ds \<noteq> []" "\<And>c. c \<in> set ds \<Longrightarrow> is_digit c"
  shows "parseInt10 (CHR ''-'' # ds) = Num (- int (digits_value ds))"
  using assms by (simp add: parseInt10_def minus_not_space takeWhile_all Let_def)

lemma parseInt10_toString: "parseInt10 (toString (Num k)) = Num k"
proof (cases "k < 0")
  case True
  then show ?thesis
    using parseInt10_minus_digits [of "digits (nat (- k))"]
    by (simp add: toString_def digits_nonempty digits_all_digit digits_value_digits)
next
  case False
  then show ?thesis
    using parseInt10_digits_then [of "digits (nat k)" "[]"]
    by (simp add: toString_def digits_nonempty digits_all_digit digits_value_digits)
qed

lemma parseInt10_NaN_text: "parseInt10 ''NaN'' = NaN" "parseInt10 ''000NaN'' = Num 0"
  by code_simp+

lemma parseInt10_padded:
  "parseInt10 (padStart 6 CHR ''0'' (toString n)) =
     (case n of
        NaN \<Rightarrow> Num 0
      | Num k \<Rightarrow> if 0 \<le> k \<or> 6 \<le> length (toString (Num k)) then Num k else Num 0)"
proof (cases n)
  case NaN
  then show ?thesis by (simp add: toString_def padStart_NaN parseInt10_NaN_text)
next
  case (Num k)
  show ?thesis
  proof (cases "0 \<le> k")
    case True
    have all: "\<And>c. c \<in> set (replicate (6 - length (digits (nat k))) CHR ''0'' @ digits (nat k)) \<Longrightarrow> is_digit c"
      by (auto simp: digits_all_digit minus_not_space)
    have "parseInt10 (replicate (6 - length (digits (nat k))) CHR ''0'' @ digits (nat k)) = Num k"
      using parseInt10_digits_then [of "replicate (6 - length (digits (nat k))) CHR ''0'' @ digits (nat k)" "[]", OF _ all] True
      by (simp add: digits_nonempty digits_value_zeros digits_value_digits)
    then show ?thesis using True Num by (simp add: padStart_def toString_def)
  next
    case False
    show ?thesis
    proof (cases "6 \<le> length (toString (Num k))")
      case True
      then show ?thesis using Num parseInt10_toString [of k] by (simp add: padStart_def)
    next
      case short: False
      define z where "z = 6 - length (toString (Num k))"
      have z: "0 < z" using short by (simp add: z_def)
      have "parseInt10 (replicate z CHR ''0'' @ CHR ''-'' # digits (nat (- k))) = Num (int (digits_value (replicate z CHR ''0'')))"
        using parseInt10_digits_then [of "replicate z CHR ''0''" "CHR ''-'' # digits (nat (- k))"] z
        by (simp add: minus_not_space)
      then show ?thesis
        using False short Num digits_value_zeros [of z "[]"]
        by (simp add: padStart_def toString_def z_def digits_value_def)
    qed
  qed
qed


lemma parseInt10_padded_nat: "0 \<le> k \<Longrightarrow> parseInt10 (padStart 6 CHR ''0'' (toString (Num k))) = Num k"
  by (simp add: parseInt10_padded)


section \<open>What one request does\<close>

lemma render_certificate_path:
  "render_certificate env data = Inr p \<Longrightarrow> \<exists>rest. p = outputDir @ ''/Certificate-'' @ rest"
  by (auto simp: render_certificate_def path_join_def Let_def split: if_splits sum.splits)

lemma render_application_path:
  "render_application env data = Inr p \<Longrightarrow> \<exists>rest. p = outputDir @ ''/Application-'' @ rest"
  by (auto simp: render_application_def path_join_def Let_def split: if_splits sum.splits)

lemma render_paths_differ:
  assumes "render_certificate env data = Inr p" "render_application env' data' = Inr p'"
  shows "p \<noteq> p'"
  using render_certificate_path [OF assms(1)] render_application_path [OF assms(2)] by auto

lemma save_cases:
  "save env doc st =
     (if save_ok env \<and> serialNumber doc \<notin> serials (store st)
      then (Inr (), st\<lparr>store := store st @ [doc]\<rparr>)
      else (Inl (if save_ok env then DuplicateKey else DbError), st))"
  by (simp add: save_def)

lemma generateCertificate_v2_eq:
  "generateCertificate uploadToCloudinary_v2 env data st =
     (case render_certificate env data of
        Inl e \<Rightarrow> (Inl e, st)
      | Inr p \<Rightarrow> (Inr (p, url_of (cert_cloud env)), st\<lparr>tmpFiles := insert p (tmpFiles st)\<rparr>))"
  by (simp add: generateCertificate_def uploadToCloudinary_v2_result url_of_def split: sum.splits)

lemma generateApplicationFormPdf_v2_eq:
  "generateApplicationFormPdf uploadToCloudinary_v2 env data st =
     (case render_application env data of
        Inl e \<Rightarrow> (Inl e, st)
      | Inr p \<Rightarrow> (Inr (p, url_of (app_cloud env)), st\<lparr>tmpFiles := insert p (tmpFiles st)\<rparr>))"
  by (simp add: generateApplicationFormPdf_def uploadToCloudinary_v2_result url_of_def split: sum.splits)

lemma getNextSerialNumber_v2_eq:
  "getNextSerialNumber_v2 env st =
     (if find_ok env then (Inr (next_serial_v2 (store st)), st) else (Inl DbError, st))"
  by (simp add: getNextSerialNumber_v2_def)

text \<open>The whole of the second handler, spelled out.\<close>

lemma submit_form_v2_success:
  assumes "find_ok env"
    and "render_certificate env (body(''serialNumber'' := Str (next_serial_v2 (store st)))) = Inr p"
    and "render_application env (body(''serialNumber'' := Str (next_serial_v2 (store st)))) = Inr p'"
    and "save_ok env"
    and "Some (next_serial_v2 (store st)) \<notin> serials (store st)"
  shows "fst (submit_form_v2 env body st) = 200"
    and "store (snd (submit_form_v2 env body st)) =
           store st @ [\<lparr> serialNumber = Some (next_serial_v2 (store st)),
                         formFields = body(''serialNumber'' := Str (next_serial_v2 (store st))),
                         certificateUrl = url_of (cert_cloud env),
                         applicationFormUrl = url_of (app_cloud env) \<rparr>]"
    and "tmpFiles (snd (submit_form_v2 env body st)) = tmpFiles st - {p, p'}"
    and "fileQueue (snd (submit_form_v2 env body st)) =
           fileQueue st @ [\<lparr> studentName = body ''applicantName'',
                              link_certificateUrl = url_of (cert_cloud env),
                              link_applicationFormUrl = url_of (app_cloud env) \<rparr>]"
    and "facultyMail (snd (submit_form_v2 env body st)) = facultyMail st"
    and "counterFile (snd (submit_form_v2 env body st)) = counterFile st"
proof -
  have ne: "p \<noteq> p'" using render_paths_differ assms(2,3) by blast
  show "fst (submit_form_v2 env body st) = 200"
    using assms ne
    by (simp add: submit_form_v2_def getNextSerialNumber_v2_eq generateCertificate_v2_eq
        generateApplicationFormPdf_v2_eq save_cases sendStudentEmail_v2_def unlink_def Let_def)
  show "store (snd (submit_form_v2 env body st)) =
           store st @ [\<lparr> serialNumber = Some (next_serial_v2 (store st)),
                         formFields = body(''serialNumber'' := Str (next_serial_v2 (store st))),
                         certificateUrl = url_of (cert_cloud env),
                         applicationFormUrl = url_of (app_cloud env) \<rparr>]"
    using assms ne
    by (simp add: submit_form_v2_def getNextSerialNumber_v2_eq generateCertificate_v2_eq
        generateApplicationFormPdf_v2_eq save_cases sendStudentEmail_v2_def unlink_def Let_def)
  show "tmpFiles (snd (submit_form_v2 env body st)) = tmpFiles st - {p, p'}"
    using assms ne
    by (auto simp add: submit_form_v2_def getNextSerialNumber_v2_eq generateCertificate_v2_eq
        generateApplicationFormPdf_v2_eq save_cases sendStudentEmail_v2_def unlink_def Let_def)
  show "fileQueue (snd (submit_form_v2 env body st)) =
           fileQueue st @ [\<lparr> studentName = body ''applicantName'',
                              link_certificateUrl = url_of (cert_cloud env),
                              link_applicationFormUrl = url_of (app_cloud env) \<rparr>]"
    using assms ne
    by (simp add: submit_form_v2_def getNextSerialNumber_v2_eq generateCertificate_v2_eq
        generateApplicationFormPdf_v2_eq save_cases sendStudentEmail_v2_def unlink_def Let_def)
  show "facultyMail (snd (submit_form_v2 env body st)) = facultyMail st"
    using assms ne
    by (simp add: submit_form_v2_def getNextSerialNumber_v2_eq generateCertificate_v2_eq
        generateApplicationFormPdf_v2_eq save_cases sendStudentEmail_v2_def unlink_def Let_def)
  show "counterFile (snd (submit_form_v2 env body st)) = counterFile st"
    using assms ne
    by (simp add: submit_form_v2_def getNextSerialNumber_v2_eq generateCertificate_v2_eq
        generateApplicationFormPdf_v2_eq save_cases sendStudentEmail_v2_def unlink_def Let_def)
qed

lemma submit_form_v2_failure:
  assumes "\<not> (find_ok env
      \<and> (\<exists>p. render_certificate env (body(''serialNumber'' := Str (next_serial_v2 (store st)))) = Inr p)
      \<and> (\<exists>p'. render_application env (body(''serialNumber'' := Str (next_serial_v2 (store st)))) = Inr p')
      \<and> save_ok env
      \<and> Some (next_serial_v2 (store st)) \<notin> serials (store st))"
  shows "fst (submit_form_v2 env body st) = 500"
    and "store (snd (submit_form_v2 env body st)) = store st"
    and "fileQueue (snd (submit_form_v2 env body st)) = fileQueue st"
    and "facultyMail (snd (submit_form_v2 env body st)) = facultyMail st"
    and "counterFile (snd (submit_form_v2 env body st)) = counterFile st"
  using assms
  by (auto simp add: submit_form_v2_def getNextSerialNumber_v2_eq generateCertificate_v2_eq
        generateApplicationFormPdf_v2_eq save_cases Let_def split: sum.splits)

lemma getNextSerialNumber_v1_eq:
  "getNextSerialNumber_v1 st =
     (serial_text (js_add1 (current_number st)),
      st\<lparr>counterFile := Some (toString (js_add1 (current_number st)))\<rparr>)"
  by (simp add: getNextSerialNumber_v1_def current_number_def Let_def split: option.splits)

lemma generateCertificate_v1_eq:
  "generateCertificate uploadToCloudinary_v1 env data st =
     (case render_certificate env data of
        Inl e \<Rightarrow> (Inl e, st)
      | Inr p \<Rightarrow>
          (Inr (p, url_of (cert_cloud env)),
           st\<lparr>tmpFiles := (if cert_cloud env = None then insert p (tmpFiles st) else tmpFiles st - {p})\<rparr>))"
  by (auto simp add: generateCertificate_def uploadToCloudinary_v1_result url_of_def split: sum.splits option.splits)

lemma generateApplicationFormPdf_v1_eq:
  "generateApplicationFormPdf uploadToCloudinary_v1 env data st =
     (case render_application env data of
        Inl e \<Rightarrow> (Inl e, st)
      | Inr p \<Rightarrow>
          (Inr (p, url_of (app_cloud env)),
           st\<lparr>tmpFiles := (if app_cloud env = None then insert p (tmpFiles st) else tmpFiles st - {p})\<rparr>))"
  by (auto simp add: generateApplicationFormPdf_def uploadToCloudinary_v1_result url_of_def split: sum.splits option.splits)

lemma submit_form_v1_counter:
  "counterFile (snd (submit_form_v1 env body st)) = Some (toString (js_add1 (current_number st)))"
  by (simp add: submit_form_v1_def getNextSerialNumber_v1_eq generateCertificate_v1_eq
        generateApplicationFormPdf_v1_eq save_cases sendStudentEmail_v1_def Let_def split: sum.splits)

lemma submit_form_v1_success:
  assumes "render_certificate env (body(''serialNumber'' := Str (serial_text (js_add1 (current_number st))))) = Inr p"
    and "render_application env (body(''serialNumber'' := Str (serial_text (js_add1 (current_number st))))) = Inr p'"
    and "save_ok env"
    and "Some (serial_text (js_add1 (current_number st))) \<notin> serials (store st)"
  shows "fst (submit_form_v1 env body st) = 200"
    and "store (snd (submit_form_v1 env body st)) =
           store st @ [\<lparr> serialNumber = Some (serial_text (js_add1 (current_number st))),
                         formFields = body(''serialNumber'' := Str (serial_text (js_add1 (current_number st)))),
                         certificateUrl = url_of (cert_cloud env),
                         applicationFormUrl = url_of (app_cloud env) \<rparr>]"
    and "fileQueue (snd (submit_form_v1 env body st)) =
           fileQueue st @ [\<lparr> item_type = ''certificate'', item_path = p \<rparr>,
                           \<lparr> item_type = ''application'', item_path = p' \<rparr>]"
    and "facultyMail (snd (submit_form_v1 env body st)) = facultyMail st"
  using assms
  by (simp_all add: submit_form_v1_def getNextSerialNumber_v1_eq generateCertificate_v1_eq
        generateApplicationFormPdf_v1_eq save_cases sendStudentEmail_v1_def Let_def)

lemma submit_form_v1_failure:
  assumes "\<not> ((\<exists>p. render_certificate env (body(''serialNumber'' := Str (serial_text (js_add1 (current_number st))))) = Inr p)
      \<and> (\<exists>p'. render_application env (body(''serialNumber'' := Str (serial_text (js_add1 (current_number st))))) = Inr p')
      \<and> save_ok env
      \<and> Some (serial_text (js_add1 (current_number st))) \<notin> serials (store st))"
  shows "fst (submit_form_v1 env body st) = 500"
    and "store (snd (submit_form_v1 env body st)) = store st"
    and "fileQueue (snd (submit_form_v1 env body st)) = fileQueue st"
    and "facultyMail (snd (submit_form_v1 env body st)) = facultyMail st"
  using assms
  by (auto simp add: submit_form_v1_def getNextSerialNumber_v1_eq generateCertificate_v1_eq
        generateApplicationFormPdf_v1_eq save_cases Let_def split: sum.splits)

section \<open>Requests in sequence\<close>

lemma num_less_Num [simp]: "num_less (Num a) (Num b) = (a < b)"
  by (simp add: num_less_def)

lemma num_less_NaN [simp]: "\<not> num_less NaN x" "\<not> num_less x NaN"
  by (simp_all add: num_less_def split: jsnum.splits)


lemma num_less_irrefl: "\<not> num_less a a"
  by (cases a) simp_all

lemma sorted_num_less_distinct: "sorted_wrt num_less (map f xs) \<Longrightarrow> distinct xs"
  by (induction xs) (auto simp: num_less_irrefl)









lemma current_number_after:
  "current_number (snd (submit_form_v1 env body st)) =
     (case current_number st of NaN \<Rightarrow> NaN | Num k \<Rightarrow> Num (k + 1))"
  using submit_form_v1_counter [of env body st]
  by (simp add: current_number_def js_add1_def parseInt10_toString toString_NaN parseInt10_NaN_text
      split: jsnum.splits)





lemma issued_v1_values:
  assumes "current_number st = Num k" "- 1 \<le> k"
  shows "map parseInt10 (issued_v1 reqs st) = map (\<lambda>i. Num (k + 1 + int i)) [0..<length reqs]"
  using assms
proof (induction reqs arbitrary: st k)
  case Nil
  then show ?case by simp
next
  case (Cons r rs)
  let ?st' = "snd (submit_form_v1 (fst r) (snd r) st)"
  have cur: "current_number ?st' = Num (k + 1)"
    using current_number_after [of "fst r" "snd r" st] Cons.prems(1) by simp
  have a: "parseInt10 (serial_text (js_add1 (current_number st))) = Num (k + 1)"
    using Cons.prems by (simp add: js_add1_def parseInt10_padded_nat)
  have "map parseInt10 (issued_v1 rs ?st') = map (\<lambda>i. Num (k + 1 + 1 + int i)) [0..<length rs]"
    using Cons.IH [OF cur] Cons.prems(2) by simp
  moreover have "[0..<length (r # rs)] = 0 # map Suc [0..<length rs]"
    unfolding map_Suc_upt length_Cons by (rule upt_conv_Cons) simp
  ultimately show ?case
    using a by (simp add: getNextSerialNumber_v1_eq comp_def add.assoc del: upt_Suc)
qed

lemma issued_v1_sorted:
  assumes "current_number st = Num k" "- 1 \<le> k"
  shows "sorted_wrt num_less (map parseInt10 (issued_v1 reqs st))"
  unfolding issued_v1_values [OF assms]
  by (simp add: sorted_wrt_map sorted_wrt_iff_nth_less)

section \<open>The scheduled flush\<close>

lemma unlink_present:
  "p \<in> tmpFiles st \<Longrightarrow> unlink p st = (Inr (), st\<lparr>tmpFiles := tmpFiles st - {p}\<rparr>)"
  by (simp add: unlink_def)

lemma unlink_absent: "p \<notin> tmpFiles st \<Longrightarrow> unlink p st = (Inl ENOENT, st)"
  by (simp add: unlink_def)

lemma unlink_each_quietly:
  "tmpFiles (foldl (\<lambda>s file. snd (unlink (item_path file) s)) st items) = tmpFiles st - item_path ` set items
   \<and> fileQueue (foldl (\<lambda>s file. snd (unlink (item_path file) s)) st items) = fileQueue st
   \<and> facultyMail (foldl (\<lambda>s file. snd (unlink (item_path file) s)) st items) = facultyMail st
   \<and> store (foldl (\<lambda>s file. snd (unlink (item_path file) s)) st items) = store st"
proof (induction items arbitrary: st)
  case Nil
  then show ?case by simp
next
  case (Cons i items)
  show ?case
    using Cons.IH [of "snd (unlink (item_path i) st)"]
    by (auto simp: unlink_def)
qed

lemma flush_v1_sent:
  assumes "fileQueue st \<noteq> []" "find_all_ok fenv" "send_ok fenv"
    and "report_path fenv \<notin> item_path ` set (fileQueue st)"
  shows "fst (sendBatchedFacultyEmail_v1 fenv st) = Inr ()"
    and "fileQueue (snd (sendBatchedFacultyEmail_v1 fenv st)) = []"
    and "facultyMail (snd (sendBatchedFacultyEmail_v1 fenv st)) =
          facultyMail st @
            [\<lparr> mail_students = js_half (length (fileQueue st)),
               mail_attachments =
                 map (\<lambda>item. (basename (item_path item), item_path item)) (fileQueue st)
                 @ [(''Master_Registration_Report.xlsx'', report_path fenv)] \<rparr>]"
    and "report_path fenv \<notin> tmpFiles (snd (sendBatchedFacultyEmail_v1 fenv st))"
    and "store (snd (sendBatchedFacultyEmail_v1 fenv st)) = store st"
  using assms
  by (simp_all add: sendBatchedFacultyEmail_v1_def Let_def unlink_present unlink_each_quietly)

lemma flush_v1_not_sent:
  assumes "\<not> send_ok fenv"
  shows "fileQueue (snd (sendBatchedFacultyEmail_v1 fenv st)) = fileQueue st"
    and "facultyMail (snd (sendBatchedFacultyEmail_v1 fenv st)) = facultyMail st"
    and "store (snd (sendBatchedFacultyEmail_v1 fenv st)) = store st"
    and "fileQueue st \<noteq> [] \<and> find_all_ok fenv \<longrightarrow>
           report_path fenv \<in> tmpFiles (snd (sendBatchedFacultyEmail_v1 fenv st))"
  using assms
  by (simp_all add: sendBatchedFacultyEmail_v1_def Let_def)

lemma flush_v2_sent:
  assumes "fileQueue st \<noteq> []" "find_all_ok fenv" "send_ok fenv"
  shows "fileQueue (snd (sendBatchedFacultyEmail_v2 fenv st)) = []"
    and "facultyMail (snd (sendBatchedFacultyEmail_v2 fenv st)) =
          facultyMail st @
            [\<lparr> mail_count = length (fileQueue st), mail_links = fileQueue st, mail_report = store st \<rparr>]"
    and "report_path fenv \<notin> tmpFiles (snd (sendBatchedFacultyEmail_v2 fenv st))"
    and "store (snd (sendBatchedFacultyEmail_v2 fenv st)) = store st"
  using assms
  by (simp_all add: sendBatchedFacultyEmail_v2_def flush_try_v2_def Let_def unlink_present)

lemma flush_v2_not_sent:
  assumes "\<not> send_ok fenv"
  shows "fileQueue (snd (sendBatchedFacultyEmail_v2 fenv st)) = fileQueue st"
    and "facultyMail (snd (sendBatchedFacultyEmail_v2 fenv st)) = facultyMail st"
    and "store (snd (sendBatchedFacultyEmail_v2 fenv st)) = store st"
    and "fileQueue st \<noteq> [] \<and> find_all_ok fenv \<longrightarrow>
           report_path fenv \<in> tmpFiles (snd (sendBatchedFacultyEmail_v2 fenv st))"
  using assms
  by (simp_all add: sendBatchedFacultyEmail_v2_def flush_try_v2_def Let_def)

lemma flush_v2_never_raises: "fst (sendBatchedFacultyEmail_v2 fenv st) = Inr ()"
  by (simp add: sendBatchedFacultyEmail_v2_def split: prod.splits sum.splits)

lemma flush_empty_queue:
  "fileQueue st1 = [] \<Longrightarrow> sendBatchedFacultyEmail_v1 fenv st1 = (Inr (), st1)"
  "fileQueue st2 = [] \<Longrightarrow> sendBatchedFacultyEmail_v2 fenv st2 = (Inr (), st2)"
  by (simp_all add: sendBatchedFacultyEmail_v1_def sendBatchedFacultyEmail_v2_def)

lemma report_path_not_pdf:
  "report_path fenv \<noteq> outputDir @ ''/Certificate-'' @ rest"
  "report_path fenv \<noteq> outputDir @ ''/Application-'' @ rest"
  by (simp_all add: report_path_def path_join_def)

lemma submit_form_v1_queues_pdfs:
  assumes "report_path fenv \<notin> item_path ` set (fileQueue st)"
  shows "report_path fenv \<notin> item_path ` set (fileQueue (snd (submit_form_v1 env body st)))"
proof (cases "(\<exists>p. render_certificate env (body(''serialNumber'' := Str (serial_text (js_add1 (current_number st))))) = Inr p)
      \<and> (\<exists>p'. render_application env (body(''serialNumber'' := Str (serial_text (js_add1 (current_number st))))) = Inr p')
      \<and> save_ok env
      \<and> Some (serial_text (js_add1 (current_number st))) \<notin> serials (store st)")
  case False
  then show ?thesis using submit_form_v1_failure(3) [of env body st] assms by simp
next
  case True
  then obtain p p' where ok:
    "render_certificate env (body(''serialNumber'' := Str (serial_text (js_add1 (current_number st))))) = Inr p"
    "render_application env (body(''serialNumber'' := Str (serial_text (js_add1 (current_number st))))) = Inr p'"
    "save_ok env" "Some (serial_text (js_add1 (current_number st))) \<notin> serials (store st)"
    by blast
  have "report_path fenv \<noteq> p" "report_path fenv \<noteq> p'"
    using render_certificate_path [OF ok(1)] render_application_path [OF ok(2)] report_path_not_pdf
    by auto
  then show ?thesis
    using submit_form_v1_success(3) [OF ok] assms by auto
qed

text \<open>
  Claim C2. Take a non-empty queue. A flush whose mail is accepted appends exactly one
  mail to the faculty's mailbox, holding every queued entry in queue order (first
  revision: one attachment per queued file, then the spreadsheet; second revision: one
  link entry per queued student and the spreadsheet of the store), empties the queue and
  removes the temporary spreadsheet. A flush whose mail is refused sends nothing, leaves
  the queue as it was and leaves the spreadsheet file in place; a later flush whose mail
  is accepted then sends exactly the entries of the original queue, once. In the first
  revision the queued files are unlinked by the flush itself, so the spreadsheet's own
  path must not be among them, which holds for every path the request handler queues
  (\<open>submit_form_v1_queues_pdfs\<close>).
\<close>

theorem flush_clears_queue_only_after_send:
  fixes st1 :: server_v1 and st2 :: server_v2
  shows
  "(fileQueue st1 \<noteq> [] \<and> find_all_ok fenv \<and> send_ok fenv
      \<and> report_path fenv \<notin> item_path ` set (fileQueue st1) \<longrightarrow>
        fileQueue (snd (sendBatchedFacultyEmail_v1 fenv st1)) = []
        \<and> facultyMail (snd (sendBatchedFacultyEmail_v1 fenv st1)) =
            facultyMail st1 @
              [\<lparr> mail_students = js_half (length (fileQueue st1)),
                 mail_attachments =
                   map (\<lambda>item. (basename (item_path item), item_path item)) (fileQueue st1)
                   @ [(''Master_Registration_Report.xlsx'', report_path fenv)] \<rparr>]
        \<and> report_path fenv \<notin> tmpFiles (snd (sendBatchedFacultyEmail_v1 fenv st1)))
   \<and> (\<not> send_ok fenv \<longrightarrow>
        fileQueue (snd (sendBatchedFacultyEmail_v1 fenv st1)) = fileQueue st1
        \<and> facultyMail (snd (sendBatchedFacultyEmail_v1 fenv st1)) = facultyMail st1
        \<and> (fileQueue st1 \<noteq> [] \<and> find_all_ok fenv \<longrightarrow>
              report_path fenv \<in> tmpFiles (snd (sendBatchedFacultyEmail_v1 fenv st1))))
   \<and> (fileQueue st1 \<noteq> [] \<and> \<not> send_ok fenv \<and> find_all_ok fenv' \<and> send_ok fenv'
      \<and> report_path fenv' \<notin> item_path ` set (fileQueue st1) \<longrightarrow>
        fileQueue (snd (sendBatchedFacultyEmail_v1 fenv' (snd (sendBatchedFacultyEmail_v1 fenv st1)))) = []
        \<and> facultyMail (snd (sendBatchedFacultyEmail_v1 fenv' (snd (sendBatchedFacultyEmail_v1 fenv st1)))) =
            facultyMail st1 @
              [\<lparr> mail_students = js_half (length (fileQueue st1)),
                 mail_attachments =
                   map (\<lambda>item. (basename (item_path item), item_path item)) (fileQueue st1)
                   @ [(''Master_Registration_Report.xlsx'', report_path fenv')] \<rparr>])
   \<and> (fileQueue st2 \<noteq> [] \<and> find_all_ok fenv \<and> send_ok fenv \<longrightarrow>
        fileQueue (snd (sendBatchedFacultyEmail_v2 fenv st2)) = []
        \<and> facultyMail (snd (sendBatchedFacultyEmail_v2 fenv st2)) =
            facultyMail st2 @
              [\<lparr> mail_count = length (fileQueue st2), mail_links = fileQueue st2,
                 mail_report = store st2 \<rparr>]
        \<and> report_path fenv \<notin> tmpFiles (snd (sendBatchedFacultyEmail_v2 fenv st2)))
   \<and> (\<not> send_ok fenv \<longrightarrow>
        fileQueue (snd (sendBatchedFacultyEmail_v2 fenv st2)) = fileQueue st2
        \<and> facultyMail (snd (sendBatchedFacultyEmail_v2 fenv st2)) = facultyMail st2
        \<and> (fileQueue st2 \<noteq> [] \<and> find_all_ok fenv \<longrightarrow>
              report_path fenv \<in> tmpFiles (snd (sendBatchedFacultyEmail_v2 fenv st2))))
   \<and> (fileQueue st2 \<noteq> [] \<and> \<not> send_ok fenv \<and> find_all_ok fenv' \<and> send_ok fenv' \<longrightarrow>
        fileQueue (snd (sendBatchedFacultyEmail_v2 fenv' (snd (sendBatchedFacultyEmail_v2 fenv st2)))) = []
        \<and> facultyMail (snd (sendBatchedFacultyEmail_v2 fenv' (snd (sendBatchedFacultyEmail_v2 fenv st2)))) =
            facultyMail st2 @
              [\<lparr> mail_count = length (fileQueue st2), mail_links = fileQueue st2,
                 mail_report = store st2 \<rparr>])"
proof -
  let ?s1 = "snd (sendBatchedFacultyEmail_v1 fenv st1)"
  let ?s2 = "snd (sendBatchedFacultyEmail_v2 fenv st2)"
  have r1: "fileQueue (snd (sendBatchedFacultyEmail_v1 fenv' ?s1)) = []
        \<and> facultyMail (snd (sendBatchedFacultyEmail_v1 fenv' ?s1)) =
            facultyMail st1 @
              [\<lparr> mail_students = js_half (length (fileQueue st1)),
                 mail_attachments =
                   map (\<lambda>item. (basename (item_path item), item_path item)) (fileQueue st1)
                   @ [(''Master_Registration_Report.xlsx'', report_path fenv')] \<rparr>]"
    if "fileQueue st1 \<noteq> []" "\<not> send_ok fenv" "find_all_ok fenv'" "send_ok fenv'"
      "report_path fenv' \<notin> item_path ` set (fileQueue st1)"
  proof -
    note k = flush_v1_not_sent [OF that(2), of st1]
    have "fileQueue ?s1 \<noteq> []" "report_path fenv' \<notin> item_path ` set (fileQueue ?s1)"
      using that k(1) by simp_all
    from flush_v1_sent(2,3) [OF this(1) that(3,4) this(2)] k show ?thesis by simp
  qed
  have r2: "fileQueue (snd (sendBatchedFacultyEmail_v2 fenv' ?s2)) = []
        \<and> facultyMail (snd (sendBatchedFacultyEmail_v2 fenv' ?s2)) =
            facultyMail st2 @
              [\<lparr> mail_count = length (fileQueue st2), mail_links = fileQueue st2,
                 mail_report = store st2 \<rparr>]"
    if "fileQueue st2 \<noteq> []" "\<not> send_ok fenv" "find_all_ok fenv'" "send_ok fenv'"
  proof -
    note k = flush_v2_not_sent [OF that(2), of st2]
    have "fileQueue ?s2 \<noteq> []" using that k(1) by simp
    from flush_v2_sent(1,2) [OF this that(3,4)] k show ?thesis by simp
  qed
  have a1: "fileQueue st1 \<noteq> [] \<and> find_all_ok fenv \<and> send_ok fenv
      \<and> report_path fenv \<notin> item_path ` set (fileQueue st1) \<longrightarrow>
        fileQueue ?s1 = []
        \<and> facultyMail ?s1 =
            facultyMail st1 @
              [\<lparr> mail_students = js_half (length (fileQueue st1)),
                 mail_attachments =
                   map (\<lambda>item. (basename (item_path item), item_path item)) (fileQueue st1)
                   @ [(''Master_Registration_Report.xlsx'', report_path fenv)] \<rparr>]
        \<and> report_path fenv \<notin> tmpFiles ?s1"
    using flush_v1_sent(2,3,4) [of st1 fenv] by simp
  have a2: "\<not> send_ok fenv \<longrightarrow>
        fileQueue ?s1 = fileQueue st1 \<and> facultyMail ?s1 = facultyMail st1
        \<and> (fileQueue st1 \<noteq> [] \<and> find_all_ok fenv \<longrightarrow> report_path fenv \<in> tmpFiles ?s1)"
    using flush_v1_not_sent(1,2,4) [of fenv st1] by simp
  have a3: "fileQueue st2 \<noteq> [] \<and> find_all_ok fenv \<and> send_ok fenv \<longrightarrow>
        fileQueue ?s2 = []
        \<and> facultyMail ?s2 =
            facultyMail st2 @
              [\<lparr> mail_count = length (fileQueue st2), mail_links = fileQueue st2,
                 mail_report = store st2 \<rparr>]
        \<and> report_path fenv \<notin> tmpFiles ?s2"
    using flush_v2_sent(1,2,3) [of st2 fenv] by simp
  have a4: "\<not> send_ok fenv \<longrightarrow>
        fileQueue ?s2 = fileQueue st2 \<and> facultyMail ?s2 = facultyMail st2
        \<and> (fileQueue st2 \<noteq> [] \<and> find_all_ok fenv \<longrightarrow> report_path fenv \<in> tmpFiles ?s2)"
    using flush_v2_not_sent(1,2,4) [of fenv st2] by simp
  from a1 a2 r1 a3 a4 r2 show ?thesis
    by (intro conjI impI) simp_all
qed

theorem flush_clears_queue_only_after_send_witness:
  "fileQueue (snd (sendBatchedFacultyEmail_v1 sample_flush (empty_server\<lparr>fileQueue := sample_queue_v1\<rparr>))) = []
   \<and> length (facultyMail (snd (sendBatchedFacultyEmail_v1 sample_flush
               (empty_server\<lparr>fileQueue := sample_queue_v1\<rparr>)))) = 1
   \<and> fileQueue (snd (sendBatchedFacultyEmail_v1 (sample_flush\<lparr>send_ok := False\<rparr>)
               (empty_server\<lparr>fileQueue := sample_queue_v1\<rparr>))) = sample_queue_v1
   \<and> facultyMail (snd (sendBatchedFacultyEmail_v1 (sample_flush\<lparr>send_ok := False\<rparr>)
               (empty_server\<lparr>fileQueue := sample_queue_v1\<rparr>))) = []
   \<and> report_path sample_flush \<in> tmpFiles (snd (sendBatchedFacultyEmail_v1 (sample_flush\<lparr>send_ok := False\<rparr>)
               (empty_server\<lparr>fileQueue := sample_queue_v1\<rparr>)))
   \<and> fileQueue (snd (sendBatchedFacultyEmail_v1 sample_flush
          (snd (sendBatchedFacultyEmail_v1 (sample_flush\<lparr>send_ok := False\<rparr>)
               (empty_server\<lparr>fileQueue := sample_queue_v1\<rparr>))))) = []
   \<and> map snd (mail_attachments (last (facultyMail (snd (sendBatchedFacultyEmail_v1 sample_flush
          (snd (sendBatchedFacultyEmail_v1 (sample_flush\<lparr>send_ok := False\<rparr>)
               (empty_server\<lparr>fileQueue := sample_queue_v1\<rparr>)))))))) =
        [''output/Certificate-Asha_Rao-1700.pdf'', ''output/Application-Asha_Rao-1701.pdf'',
         ''output/report-1800.xlsx'']
   \<and> fileQueue (snd (sendBatchedFacultyEmail_v2 sample_flush (empty_server\<lparr>fileQueue := sample_queue_v2\<rparr>))) = []
   \<and> facultyMail (snd (sendBatchedFacultyEmail_v2 sample_flush (empty_server\<lparr>fileQueue := sample_queue_v2\<rparr>))) =
        [\<lparr> mail_count = 1, mail_links = sample_queue_v2, mail_report = [] \<rparr>]
   \<and> fileQueue (snd (sendBatchedFacultyEmail_v2 (sample_flush\<lparr>send_ok := False\<rparr>)
               (empty_server\<lparr>fileQueue := sample_queue_v2\<rparr>))) = sample_queue_v2
   \<and> facultyMail (snd (sendBatchedFacultyEmail_v2 sample_flush
          (snd (sendBatchedFacultyEmail_v2 (sample_flush\<lparr>send_ok := False\<rparr>)
               (empty_server\<lparr>fileQueue := sample_queue_v2\<rparr>))))) =
        [\<lparr> mail_count = 1, mail_links = sample_queue_v2, mail_report = [] \<rparr>]"
proof -
  have r: "report_path sample_flush = ''output/report-1800.xlsx''"
    "report_path (sample_flush\<lparr>send_ok := False\<rparr>) = ''output/report-1800.xlsx''"
    by code_simp+
  have q: "sample_queue_v1 \<noteq> []" "sample_queue_v2 \<noteq> []"
    "''output/report-1800.xlsx'' \<notin> item_path ` set sample_queue_v1"
    "map (\<lambda>item. item_path item) sample_queue_v1 =
       [''output/Certificate-Asha_Rao-1700.pdf'', ''output/Application-Asha_Rao-1701.pdf'']"
    "length sample_queue_v2 = 1"
    by (simp_all add: sample_queue_v1_def sample_queue_v2_def)
  have f: "find_all_ok sample_flush" "send_ok sample_flush"
    "\<not> send_ok (sample_flush\<lparr>send_ok := False\<rparr>)" "find_all_ok (sample_flush\<lparr>send_ok := False\<rparr>)"
    by (simp_all add: sample_flush_def)
  have e: "facultyMail (empty_server :: server_v1) = []" "facultyMail (empty_server :: server_v2) = []"
    "store (empty_server :: server_v2) = []"
    by (simp_all add: empty_server_def)
  note sent =
    flush_clears_queue_only_after_send [where fenv = sample_flush and fenv' = sample_flush
      and ?st1.0 = "empty_server\<lparr>fileQueue := sample_queue_v1\<rparr>"
      and ?st2.0 = "empty_server\<lparr>fileQueue := sample_queue_v2\<rparr>"]
  note refused =
    flush_clears_queue_only_after_send [where fenv = "sample_flush\<lparr>send_ok := False\<rparr>" and fenv' = sample_flush
      and ?st1.0 = "empty_server\<lparr>fileQueue := sample_queue_v1\<rparr>"
      and ?st2.0 = "empty_server\<lparr>fileQueue := sample_queue_v2\<rparr>"]
  show ?thesis
    using sent refused r q f e by (simp add: comp_def)
qed

section \<open>The status of a request\<close>

lemma render_certificate_cloud [simp]:
  "render_certificate (env\<lparr>cert_cloud := c\<rparr>) data = render_certificate env data"
  "render_certificate (env\<lparr>app_cloud := c\<rparr>) data = render_certificate env data"
  by (simp_all add: render_certificate_def Let_def split: sum.splits)

lemma render_application_cloud [simp]:
  "render_application (env\<lparr>cert_cloud := c\<rparr>) data = render_application env data"
  "render_application (env\<lparr>app_cloud := c\<rparr>) data = render_application env data"
  by (simp_all add: render_application_def Let_def split: sum.splits)

lemma submit_form_v2_status:
  "fst (submit_form_v2 env body st) =
     (if find_ok env
         \<and> (\<exists>p. render_certificate env (body(''serialNumber'' := Str (next_serial_v2 (store st)))) = Inr p)
         \<and> (\<exists>p'. render_application env (body(''serialNumber'' := Str (next_serial_v2 (store st)))) = Inr p')
         \<and> save_ok env
         \<and> Some (next_serial_v2 (store st)) \<notin> serials (store st)
      then 200 else 500)"
  using submit_form_v2_success(1) [of env body st] submit_form_v2_failure(1) [of env body st]
  by (cases "find_ok env
         \<and> (\<exists>p. render_certificate env (body(''serialNumber'' := Str (next_serial_v2 (store st)))) = Inr p)
         \<and> (\<exists>p'. render_application env (body(''serialNumber'' := Str (next_serial_v2 (store st)))) = Inr p')
         \<and> save_ok env
         \<and> Some (next_serial_v2 (store st)) \<notin> serials (store st)") auto

lemma submit_form_v1_status:
  "fst (submit_form_v1 env body st) =
     (if (\<exists>p. render_certificate env (body(''serialNumber'' := Str (serial_text (js_add1 (current_number st))))) = Inr p)
         \<and> (\<exists>p'. render_application env (body(''serialNumber'' := Str (serial_text (js_add1 (current_number st))))) = Inr p')
         \<and> save_ok env
         \<and> Some (serial_text (js_add1 (current_number st))) \<notin> serials (store st)
      then 200 else 500)"
  using submit_form_v1_success(1) [of env body st] submit_form_v1_failure(1) [of env body st]
  by (cases "(\<exists>p. render_certificate env (body(''serialNumber'' := Str (serial_text (js_add1 (current_number st))))) = Inr p)
         \<and> (\<exists>p'. render_application env (body(''serialNumber'' := Str (serial_text (js_add1 (current_number st))))) = Inr p')
         \<and> save_ok env
         \<and> Some (serial_text (js_add1 (current_number st))) \<notin> serials (store st)") auto

lemma submit_form_v2_stored:
  assumes "fst (submit_form_v2 env body st) = 200"
  shows "store (snd (submit_form_v2 env body st)) =
           store st @ [\<lparr> serialNumber = Some (next_serial_v2 (store st)),
                         formFields = body(''serialNumber'' := Str (next_serial_v2 (store st))),
                         certificateUrl = url_of (cert_cloud env),
                         applicationFormUrl = url_of (app_cloud env) \<rparr>]"
proof -
  from assms obtain p p' where "find_ok env"
    "render_certificate env (body(''serialNumber'' := Str (next_serial_v2 (store st)))) = Inr p"
    "render_application env (body(''serialNumber'' := Str (next_serial_v2 (store st)))) = Inr p'"
    "save_ok env" "Some (next_serial_v2 (store st)) \<notin> serials (store st)"
    unfolding submit_form_v2_status by (auto split: if_splits)
  then show ?thesis by (rule submit_form_v2_success(2))
qed

lemma submit_form_v2_files:
  assumes "fst (submit_form_v2 env body st) = 200"
  shows "\<exists>p p'. render_certificate env (body(''serialNumber'' := Str (next_serial_v2 (store st)))) = Inr p
           \<and> render_application env (body(''serialNumber'' := Str (next_serial_v2 (store st)))) = Inr p'
           \<and> tmpFiles (snd (submit_form_v2 env body st)) = tmpFiles st - {p, p'}"
proof -
  from assms obtain p p' where ok: "find_ok env"
    "render_certificate env (body(''serialNumber'' := Str (next_serial_v2 (store st)))) = Inr p"
    "render_application env (body(''serialNumber'' := Str (next_serial_v2 (store st)))) = Inr p'"
    "save_ok env" "Some (next_serial_v2 (store st)) \<notin> serials (store st)"
    unfolding submit_form_v2_status by (auto split: if_splits)
  from submit_form_v2_success(3) [OF ok] ok(2,3) show ?thesis by blast
qed

text \<open>
  Claim C7. In the second revision the answers of the storage service have no influence
  on the status of the response: a request answered with 200 is answered with 200 also
  when either upload is rejected. Whenever the response is 200, exactly one registration
  has been added to the store, and each of its two URL fields holds the uploaded file's
  URL, or \<^verbatim>\<open>null\<close> when that upload was rejected.
\<close>

theorem upload_failure_does_not_abort:
  "fst (submit_form_v2 (env\<lparr>cert_cloud := None\<rparr>) body st) = fst (submit_form_v2 env body st)
   \<and> fst (submit_form_v2 (env\<lparr>app_cloud := None\<rparr>) body st) = fst (submit_form_v2 env body st)
   \<and> (fst (submit_form_v2 env body st) = 200 \<longrightarrow>
        (\<exists>doc. store (snd (submit_form_v2 env body st)) = store st @ [doc]
           \<and> certificateUrl doc = (case cert_cloud env of None \<Rightarrow> Null | Some u \<Rightarrow> Str u)
           \<and> applicationFormUrl doc = (case app_cloud env of None \<Rightarrow> Null | Some u \<Rightarrow> Str u)))"
proof -
  have "fst (submit_form_v2 env body st) = 200 \<longrightarrow>
        (\<exists>doc. store (snd (submit_form_v2 env body st)) = store st @ [doc]
           \<and> certificateUrl doc = (case cert_cloud env of None \<Rightarrow> Null | Some u \<Rightarrow> Str u)
           \<and> applicationFormUrl doc = (case app_cloud env of None \<Rightarrow> Null | Some u \<Rightarrow> Str u))"
    using submit_form_v2_stored [of env body st] by (simp add: url_of_def)
  then show ?thesis by (simp add: submit_form_v2_status)
qed

theorem upload_failure_does_not_abort_witness:
  "fst (submit_form_v2 (sample_env\<lparr>cert_cloud := None\<rparr>) sample_body empty_server) = 200
   \<and> (\<exists>doc. store (snd (submit_form_v2 (sample_env\<lparr>cert_cloud := None\<rparr>) sample_body empty_server))
                = store (empty_server :: server_v2) @ [doc]
          \<and> certificateUrl doc = Null
          \<and> applicationFormUrl doc = Str ''https://cdn/a'')"
proof -
  have s: "fst (submit_form_v2 (sample_env\<lparr>cert_cloud := None\<rparr>) sample_body empty_server) = 200"
    by code_simp
  show ?thesis
    using upload_failure_does_not_abort [of "sample_env\<lparr>cert_cloud := None\<rparr>" sample_body empty_server] s
    by (simp add: sample_env_def)
qed

lemma upload_failure_does_not_abort_v1:
  "fst (submit_form_v1 (env\<lparr>cert_cloud := None\<rparr>) body st) = fst (submit_form_v1 env body st)
   \<and> fst (submit_form_v1 (env\<lparr>app_cloud := None\<rparr>) body st) = fst (submit_form_v1 env body st)"
  by (simp add: submit_form_v1_status)

section \<open>Who removes the local files\<close>


lemma generateCertificate_v2_keeps_file:
  "fst (generateCertificate uploadToCloudinary_v2 env data st) = Inr (p, url)
     \<Longrightarrow> p \<in> tmpFiles (snd (generateCertificate uploadToCloudinary_v2 env data st))"
  by (auto simp: generateCertificate_v2_eq split: sum.splits)

text \<open>
  Claim C8, as the code has it. The uploader of the second revision leaves the state,
  and with it every local file, as it is; there the request handler removes both
  generated files itself, after both uploads have returned and before it answers 200.
  The uploader of the first revision removes the local file it was given whenever the
  storage service accepted the upload, and keeps it when the upload was rejected.
\<close>

theorem uploader_file_lifecycle:
  "snd (uploadToCloudinary_v2 filePath owner cloud st) = st
   \<and> tmpFiles (snd (uploadToCloudinary_v1 filePath owner cloud st1)) =
       (if cloud = None then tmpFiles st1 else tmpFiles st1 - {filePath})
   \<and> (fst (submit_form_v2 env body st2) = 200 \<longrightarrow>
        (\<exists>p p'. render_certificate env (body(''serialNumber'' := Str (next_serial_v2 (store st2)))) = Inr p
           \<and> render_application env (body(''serialNumber'' := Str (next_serial_v2 (store st2)))) = Inr p'
           \<and> tmpFiles (snd (submit_form_v2 env body st2)) = tmpFiles st2 - {p, p'}))"
  using submit_form_v2_files [of env body st2]
  by (auto simp: uploadToCloudinary_v2_result uploadToCloudinary_v1_result split: option.splits)

theorem uploader_file_lifecycle_witness:
  "fst (submit_form_v2 sample_env sample_body empty_server) = 200
   \<and> (\<exists>p p'. render_certificate sample_env
                (sample_body(''serialNumber'' := Str (next_serial_v2 (store (empty_server :: server_v2))))) = Inr p
         \<and> render_application sample_env
                (sample_body(''serialNumber'' := Str (next_serial_v2 (store (empty_server :: server_v2))))) = Inr p'
         \<and> tmpFiles (snd (submit_form_v2 sample_env sample_body empty_server))
             = tmpFiles (empty_server :: server_v2) - {p, p'})
   \<and> tmpFiles (snd (submit_form_v2 sample_env sample_body empty_server)) = {}"
proof -
  have s: "fst (submit_form_v2 sample_env sample_body empty_server) = 200"
    by code_simp
  have e: "tmpFiles (empty_server :: server_v2) = {}"
    by (simp add: empty_server_def)
  from uploader_file_lifecycle [where env = sample_env and body = sample_body and ?st2.0 = empty_server] s
  have x: "\<exists>p p'. render_certificate sample_env
                (sample_body(''serialNumber'' := Str (next_serial_v2 (store (empty_server :: server_v2))))) = Inr p
         \<and> render_application sample_env
                (sample_body(''serialNumber'' := Str (next_serial_v2 (store (empty_server :: server_v2))))) = Inr p'
         \<and> tmpFiles (snd (submit_form_v2 sample_env sample_body empty_server))
             = tmpFiles (empty_server :: server_v2) - {p, p'}"
    by blast
  then have "tmpFiles (snd (submit_form_v2 sample_env sample_body empty_server)) = {}"
    using e by auto
  with s x show ?thesis by blast
qed

text \<open>The claim as stated fails on the first revision: after a successful upload the
  local file is gone when the uploader returns.\<close>

theorem uploader_v1_deletes_counterexample:
  "''output/a.pdf'' \<in> tmpFiles ((empty_server :: server_v1)\<lparr>tmpFiles := {''output/a.pdf''}\<rparr>)
   \<and> ''output/a.pdf'' \<notin>
       tmpFiles (snd (uploadToCloudinary_v1 ''output/a.pdf'' (Str ''Asha Rao'') (Some ''https://cdn/c'')
                       ((empty_server :: server_v1)\<lparr>tmpFiles := {''output/a.pdf''}\<rparr>)))"
  by (simp add: uploadToCloudinary_v1_result)

section \<open>Records without an applicant name\<close>

lemma replace_ws_no_space: "c \<in> set (replace_ws s) \<Longrightarrow> \<not> is_space c"
proof (induction s arbitrary: c rule: replace_ws.induct)
  case 1
  then show ?case by simp
next
  case (2 d ds)
  have u: "\<not> is_space CHR ''_''" by (simp add: is_space_def)
  show ?case
  proof (cases "is_space d")
    case True
    with 2 u show ?thesis by auto
  next
    case False
    with 2 show ?thesis by auto
  qed
qed

lemma render_certificate_empty_record: "render_certificate e ((\<lambda>k. Undefined)(''serialNumber'' := Str s)) =
      (if cert_setup_ok e then Inl TypeError else Inl RenderError)"
    by (simp add: render_certificate_def fill_certificate_def mainText_def toUpperCase_def)

lemma fill_application_empty_record: "\<exists>filled. fill_application ((\<lambda>k. Undefined)(''serialNumber'' := Str s)) = Inr filled"
    by (simp add: fill_application_def truthy_def)

lemma render_application_empty_record: "render_application e ((\<lambda>k. Undefined)(''serialNumber'' := Str s)) =
      (if app_setup_ok e then Inl TypeError else Inl RenderError)"
    by (simp add: render_application_def fill_application_def truthy_def replace_spaces_def)

text \<open>
  Claim C6, at the request body \<^verbatim>\<open>{}\<close>. With the browser and the assets in order, the
  certificate renderer raises a TypeError at \<^verbatim>\<open>data.applicantName.toUpperCase()\<close>. The
  application form's fields are filled defensively and that step succeeds, but the
  renderer then raises a TypeError at \<^verbatim>\<open>data.applicantName.replace\<close> when it builds the
  file name. Both handlers answer 500, whatever the outside world does.
\<close>

theorem renderers_raise_without_applicant_name:
  "render_certificate (env\<lparr>cert_setup_ok := True\<rparr>) ((\<lambda>k. Undefined)(''serialNumber'' := Str serial)) = Inl TypeError
   \<and> (\<exists>filled. fill_application ((\<lambda>k. Undefined)(''serialNumber'' := Str serial)) = Inr filled)
   \<and> render_application (env\<lparr>app_setup_ok := True\<rparr>) ((\<lambda>k. Undefined)(''serialNumber'' := Str serial)) = Inl TypeError
   \<and> fst (submit_form_v1 env (\<lambda>k. Undefined) st1) = 500
   \<and> fst (submit_form_v2 env (\<lambda>k. Undefined) st2) = 500"
proof -
  have 1: "fst (submit_form_v1 env (\<lambda>k. Undefined) st1) = 500"
    unfolding submit_form_v1_status render_certificate_empty_record by simp
  have 2: "fst (submit_form_v2 env (\<lambda>k. Undefined) st2) = 500"
    unfolding submit_form_v2_status render_certificate_empty_record by simp
  show ?thesis
    using fill_application_empty_record [of serial] 1 2
    by (simp add: render_certificate_empty_record render_application_empty_record)
qed

section \<open>Serial numbers of successive requests\<close>




section \<open>The counter after a failed request\<close>

lemma counter_advances_in_range:
  assumes "counter_in_range (length reqs) st" and "current_number st = Num k"
  shows "counterFile (snd (submit_form_v1 env body st)) = Some (toString (Num (k + 1)))"
    and "current_number (snd (submit_form_v1 env body st)) = Num (k + 1)"
    and "map parseInt10 (issued_v1 reqs st) = map (\<lambda>i. Num (k + 1 + int i)) [0..<length reqs]"
    and "distinct (issued_v1 reqs st)"
proof -
  have k: "- 1 \<le> k" using assms by (simp add: counter_in_range_def)
  show "counterFile (snd (submit_form_v1 env body st)) = Some (toString (Num (k + 1)))"
    using submit_form_v1_counter [of env body st] assms(2) by (simp add: js_add1_def)
  show "current_number (snd (submit_form_v1 env body st)) = Num (k + 1)"
    using current_number_after [of env body st] assms(2) by simp
  show "map parseInt10 (issued_v1 reqs st) = map (\<lambda>i. Num (k + 1 + int i)) [0..<length reqs]"
    using issued_v1_values [OF assms(2) k] .
  show "distinct (issued_v1 reqs st)"
    using issued_v1_sorted [OF assms(2) k] by (rule sorted_num_less_distinct)
qed

text \<open>
  Claim C10. In the first revision the counter file a request leaves behind is the one
  \<^verbatim>\<open>getNextSerialNumber\<close> wrote, whether the request was answered with 200 or with 500:
  no later step changes it, so there is no rollback. From a counter file that holds \<open>abc\<close>,
  however, every request leaves \<open>NaN\<close> in the file, and two successive requests, whatever
  becomes of them, are both handed the serial number \<open>000NaN\<close>: a serial number is issued
  again. From a counter in range the serial numbers handed out are \<open>k + 1\<close>, \<open>k + 2\<close>, ...
  and pairwise distinct (the lemma above).
\<close>

theorem serial_reissued_after_corrupt_counter:
  "counterFile (snd (submit_form_v1 env body st)) = counterFile (snd (getNextSerialNumber_v1 st))
   \<and> counterFile (snd (submit_form_v1 env body (st\<lparr>counterFile := Some ''abc''\<rparr>))) = Some ''NaN''
   \<and> issued_v1 [(env, body), (env', body')] (st\<lparr>counterFile := Some ''abc''\<rparr>)
       = [''000NaN'', ''000NaN'']"
proof -
  let ?st = "st\<lparr>counterFile := Some ''abc''\<rparr>"
  have c: "current_number ?st = NaN"
    by (simp add: current_number_def parseInt10_abc)
  have c': "current_number (snd (submit_form_v1 env body ?st)) = NaN"
    using current_number_after [of env body ?st] c by simp
  have a: "counterFile (snd (submit_form_v1 env body st)) = counterFile (snd (getNextSerialNumber_v1 st))"
    using submit_form_v1_counter [of env body st] by (simp add: getNextSerialNumber_v1_eq)
  have b: "counterFile (snd (submit_form_v1 env body ?st)) = Some ''NaN''"
    using submit_form_v1_counter [of env body ?st] c by (simp add: js_add1_def toString_NaN)
  have i: "issued_v1 [(env, body), (env', body')] ?st = [''000NaN'', ''000NaN'']"
    using c c' by (simp add: getNextSerialNumber_v1_eq js_add1_def toString_NaN padStart_NaN)
  from a b i show ?thesis by blast
qed

end
